theory Spec2Isabelle
  imports Main "HOL-Library.Multiset"
begin

section \<open>Data model of the font experiment scripts\<close>

text \<open>
  Every script under \<^verbatim>\<open>font_experiments\<close> loads a bitmap, reads the pixel at the origin as
  the background colour, scans the image row by row, sorts the visible pixels into per-colour
  lists, and draws one rectangle per pixel into a glyph pen. The decoded bitmap is the input
  of the model: its size and its \<^verbatim>\<open>getpixel\<close> function. Python integers are \<open>int\<close>.
  A nested function of a script reads variables of the enclosing function; in the model
  they are parameters. Printing, the fixed name, OS/2 and post tables and the writing of the
  font file are left out.
\<close>

type_synonym rgb = "int \<times> int \<times> int"
type_synonym pixel = "int \<times> int"
type_synonym point = "int \<times> int"

text \<open>A rectangle is (left, bottom, right, top) in font units.\<close>

type_synonym rect = "int \<times> int \<times> int \<times> int"

text \<open>A contour is the point list a pen receives between \<^verbatim>\<open>moveTo\<close> and \<^verbatim>\<open>closePath\<close>.\<close>

type_synonym contour = "point list"
type_synonym glyph = "contour list"

datatype error = IndexError | ValueError

record image =
  width :: nat
  height :: nat
  getpixel :: "pixel \<Rightarrow> rgb"

text \<open>
  \<^verbatim>\<open>for y in range(original_height): for x in range(original_width)\<close>: the scan order.
\<close>

definition scan_order :: "nat \<Rightarrow> nat \<Rightarrow> pixel list" where
  "scan_order w h = concat (map (\<lambda>y. map (\<lambda>x. (int x, int y)) [0..<w]) [0..<h])"

text \<open>
  \<^verbatim>\<open>bg_color = img.getpixel((0, 0))[:3]\<close>; reading the origin of an image without pixels
  raises.
\<close>

definition bg_color :: "image \<Rightarrow> error + rgb" where
  "bg_color img =
     (if width img = 0 \<or> height img = 0 then Inl IndexError else Inr (getpixel img (0, 0)))"

text \<open>
  The four pen calls \<^verbatim>\<open>moveTo((left, bottom))\<close>, \<^verbatim>\<open>lineTo((right, bottom))\<close>,
  \<^verbatim>\<open>lineTo((right, top))\<close>, \<^verbatim>\<open>lineTo((left, top))\<close>, \<^verbatim>\<open>closePath()\<close>.
\<close>

fun rect_contour :: "rect \<Rightarrow> contour" where
  "rect_contour (left, bottom, right, top') =
     [(left, bottom), (right, bottom), (right, top'), (left, top')]"

text \<open>
  The coordinate computation in the body of every layer loop, with the script's constants
  (\<^verbatim>\<open>scale_factor\<close>, the x offset, the y offset) and \<^verbatim>\<open>original_height\<close> as parameters.
\<close>

fun pixel_rect :: "int \<Rightarrow> int \<Rightarrow> int \<Rightarrow> int \<Rightarrow> pixel \<Rightarrow> rect" where
  "pixel_rect scale_factor x_offset y_offset original_height (x, y) =
     (let flipped_y = original_height - 1 - y;
          left = x * scale_factor + x_offset;
          right = left + scale_factor;
          bottom = flipped_y * scale_factor + y_offset;
          top' = bottom + scale_factor
      in (left, bottom, right, top'))"

text \<open>The glyphs every script adds besides the image ones.\<close>

definition create_space_glyph :: glyph where
  "create_space_glyph = []"

definition create_notdef_glyph :: glyph where
  "create_notdef_glyph = [[(50, 0), (450, 0), (450, 750), (50, 750)]]"

section \<open>\<^verbatim>\<open>create_three_color_blinka.py\<close>\<close>

definition white_rgb :: rgb where "white_rgb = (255, 255, 255)"
definition light_blue_rgb :: rgb where "light_blue_rgb = (166, 202, 240)"
definition purple_rgb :: rgb where "purple_rgb = (128, 32, 192)"

record three_groups =
  white_pixels :: "pixel list"
  light_blue_pixels :: "pixel list"
  purple_pixels :: "pixel list"
  other_color_pixels :: "(int \<times> int \<times> rgb) list"

definition no_groups :: three_groups where
  "no_groups = \<lparr>white_pixels = [], light_blue_pixels = [], purple_pixels = [],
                 other_color_pixels = []\<rparr>"

text \<open>One iteration of the classification loop (lines 49 to 62).\<close>

definition classify_pixel :: "image \<Rightarrow> rgb \<Rightarrow> pixel \<Rightarrow> three_groups \<Rightarrow> three_groups" where
  "classify_pixel img bg p g =
     (let rgb = getpixel img p in
      if rgb = bg then g
      else if rgb = white_rgb then g\<lparr>white_pixels := white_pixels g @ [p]\<rparr>
      else if rgb = light_blue_rgb then g\<lparr>light_blue_pixels := light_blue_pixels g @ [p]\<rparr>
      else g\<lparr>purple_pixels := purple_pixels g @ [p],
              other_color_pixels :=
                (if rgb \<noteq> purple_rgb then other_color_pixels g @ [(fst p, snd p, rgb)]
                 else other_color_pixels g)\<rparr>)"

definition classify_three :: "image \<Rightarrow> error + three_groups" where
  "classify_three img =
     (case bg_color img of
        Inl e \<Rightarrow> Inl e
      | Inr bg \<Rightarrow>
          Inr (fold (classify_pixel img bg) (scan_order (width img) (height img)) no_groups))"

text \<open>\<^verbatim>\<open>create_color_layer_glyph\<close>, with \<^verbatim>\<open>scale_factor = 4\<close> and the offsets 50 and 100.\<close>

definition create_color_layer_glyph :: "int \<Rightarrow> pixel list \<Rightarrow> glyph" where
  "create_color_layer_glyph original_height pixel_positions =
     (if pixel_positions = [] then []
      else map (\<lambda>p. rect_contour (pixel_rect 4 50 100 original_height p)) pixel_positions)"

text \<open>
  The rectangle \<^verbatim>\<open>create_base_outline_glyph\<close> draws: the fallback rectangle when no pixel is
  visible, the tight bounds of the visible pixels otherwise.
\<close>

fun base_outline_rect :: "int \<Rightarrow> int \<Rightarrow> pixel list \<Rightarrow> rect" where
  "base_outline_rect original_width original_height [] =
     (let scaled_width = original_width * 4; scaled_height = original_height * 4
      in (50, 100, 50 + scaled_width, 100 + scaled_height))"
| "base_outline_rect original_width original_height (p # ps) =
     (let min_x = fold min (map fst ps) (fst p);
          max_x = fold max (map fst ps) (fst p);
          min_y = fold min (map (\<lambda>q. original_height - 1 - snd q) ps)
                    (original_height - 1 - snd p);
          max_y = fold max (map (\<lambda>q. original_height - 1 - snd q) ps)
                    (original_height - 1 - snd p);
          left = min_x * 4 + 50;
          right = (max_x + 1) * 4 + 50;
          bottom = min_y * 4 + 100;
          top' = (max_y + 1) * 4 + 100
      in (left, bottom, right, top'))"

definition create_base_outline_glyph :: "int \<Rightarrow> int \<Rightarrow> pixel list \<Rightarrow> glyph" where
  "create_base_outline_glyph original_width original_height all_visible =
     [rect_contour (base_outline_rect original_width original_height all_visible)]"

text \<open>The advance width (lines 178 to 184).\<close>

fun glyph_width :: "int \<Rightarrow> pixel list \<Rightarrow> int" where
  "glyph_width original_width [] = original_width * 4 + 100"
| "glyph_width original_width (p # ps) =
     (let min_x = fold min (map fst ps) (fst p);
          max_x = fold max (map fst ps) (fst p)
      in (max_x - min_x + 2) * 4 + 100)"

record three_color_font =
  glyphs :: "(string \<times> glyph) list"
  metrics :: "(string \<times> int \<times> int) list"
  colr_data :: "(string \<times> (string \<times> nat) list) list"

definition create_three_color_blinka :: "image \<Rightarrow> error + three_color_font" where
  "create_three_color_blinka img =
     (case classify_three img of
        Inl e \<Rightarrow> Inl e
      | Inr g \<Rightarrow>
          (let original_width = int (width img);
               original_height = int (height img);
               all_visible = white_pixels g @ light_blue_pixels g @ purple_pixels g;
               w = glyph_width original_width all_visible
           in Inr \<lparr>glyphs =
                     [(''.notdef'', create_notdef_glyph),
                      (''space'', create_space_glyph),
                      (''blinka'',
                         create_base_outline_glyph original_width original_height all_visible),
                      (''blinka.purple'',
                         create_color_layer_glyph original_height (purple_pixels g)),
                      (''blinka.white'',
                         create_color_layer_glyph original_height (white_pixels g)),
                      (''blinka.lightblue'',
                         create_color_layer_glyph original_height (light_blue_pixels g))],
                   metrics =
                     [(''.notdef'', 500, 50), (''space'', 600, 0), (''blinka'', w, 50),
                      (''blinka.purple'', w, 50), (''blinka.white'', w, 50),
                      (''blinka.lightblue'', w, 50)],
                   colr_data =
                     [(''blinka'',
                         [(''blinka.purple'', 0), (''blinka.lightblue'', 2),
                          (''blinka.white'', 1)])]\<rparr>))"

section \<open>\<^verbatim>\<open>create_compensated_three_color_blinka.py\<close>\<close>

text \<open>
  The script classifies as the three-colour one does (without the list of other colours) and
  draws each layer with its own entry of \<^verbatim>\<open>compensation_offsets\<close>.
\<close>

datatype layer_color = Purple | White | LightBlue

text \<open>
  \<^verbatim>\<open>compensation_offsets\<close> is a dictionary literal with the three keys \<^verbatim>\<open>'purple'\<close>,
  \<^verbatim>\<open>'white'\<close> and \<^verbatim>\<open>'lightblue'\<close>, read only at these keys.
\<close>

fun compensation_offsets :: "layer_color \<Rightarrow> int" where
  "compensation_offsets Purple = 0"
| "compensation_offsets White = 0"
| "compensation_offsets LightBlue = 12"

fun compensated_rect :: "int \<Rightarrow> int \<Rightarrow> pixel \<Rightarrow> rect" where
  "compensated_rect original_height compensation (x, y) =
     (let flipped_y = original_height - 1 - y;
          base_left = x * 4 + 50;
          compensated_left = base_left + compensation;
          right = compensated_left + 4;
          bottom = flipped_y * 4 + 100;
          top' = bottom + 4
      in (compensated_left, bottom, right, top'))"

definition create_compensated_color_layer_glyph :: "int \<Rightarrow> pixel list \<Rightarrow> int \<Rightarrow> glyph" where
  "create_compensated_color_layer_glyph original_height pixel_positions compensation =
     (if pixel_positions = [] then []
      else map (\<lambda>p. rect_contour (compensated_rect original_height compensation p))
             pixel_positions)"

text \<open>The three layer entries of the \<^verbatim>\<open>glyphs\<close> dictionary (lines 174 to 176).\<close>

definition compensated_layers :: "int \<Rightarrow> three_groups \<Rightarrow> (string \<times> glyph) list" where
  "compensated_layers original_height g =
     [(''blinka.purple'',
         create_compensated_color_layer_glyph original_height (purple_pixels g)
           (compensation_offsets Purple)),
      (''blinka.white'',
         create_compensated_color_layer_glyph original_height (white_pixels g)
           (compensation_offsets White)),
      (''blinka.lightblue'',
         create_compensated_color_layer_glyph original_height (light_blue_pixels g)
           (compensation_offsets LightBlue))]"

section \<open>Dictionaries\<close>

text \<open>
  A Python dictionary keeps its keys in insertion order: an association list with one entry
  per key. \<open>dict_get\<close> is \<^verbatim>\<open>d.get(k, [])\<close>, \<open>dict_set\<close> is \<^verbatim>\<open>d[k] = v\<close>, and
  \<open>dict_append\<close> is \<^verbatim>\<open>d[k].append(x)\<close> on a dictionary where a missing key starts as the
  empty list.
\<close>

definition dict_get :: "('k \<times> 'v list) list \<Rightarrow> 'k \<Rightarrow> 'v list" where
  "dict_get d k = (case map_of d k of None \<Rightarrow> [] | Some v \<Rightarrow> v)"

fun dict_set :: "'k \<Rightarrow> 'v \<Rightarrow> ('k \<times> 'v) list \<Rightarrow> ('k \<times> 'v) list" where
  "dict_set k v [] = [(k, v)]"
| "dict_set k v ((k', v') # d) =
     (if k = k' then (k, v) # d else (k', v') # dict_set k v d)"

definition dict_append :: "'k \<Rightarrow> 'v \<Rightarrow> ('k \<times> 'v list) list \<Rightarrow> ('k \<times> 'v list) list" where
  "dict_append k x d = dict_set k (dict_get d k @ [x]) d"

section \<open>\<^verbatim>\<open>create_final_seventeen_color_blinka.py\<close>\<close>

definition seventeen_colors :: "rgb list" where
  "seventeen_colors =
     [(255, 255, 255), (166, 202, 240),
      (128, 32, 192), (96, 24, 144), (96, 64, 128), (160, 32, 192), (61, 43, 52),
      (40, 49, 58), (102, 26, 154), (120, 24, 144), (128, 26, 154), (224, 160, 192),
      (64, 42, 85), (60, 40, 80), (38, 46, 55), (0, 64, 192), (56, 40, 48)]"

type_synonym color_groups = "(rgb \<times> pixel list) list"

text \<open>
  The inner loop \<^verbatim>\<open>for color in seventeen_colors: if rgb == color: ...; break\<close>. A colour
  that matches no entry leaves the groups as they are.
\<close>

fun assign_color :: "rgb list \<Rightarrow> rgb \<Rightarrow> pixel \<Rightarrow> color_groups \<Rightarrow> color_groups" where
  "assign_color [] rgb p color_pixel_groups = color_pixel_groups"
| "assign_color (color # colors) rgb p color_pixel_groups =
     (if rgb = color then dict_append color p color_pixel_groups
      else assign_color colors rgb p color_pixel_groups)"

text \<open>One iteration of the scan (lines 69 to 83), on the pair of the two accumulators.\<close>

definition separate_pixel ::
  "image \<Rightarrow> rgb \<Rightarrow> rgb list \<Rightarrow> pixel \<Rightarrow> color_groups \<times> pixel list \<Rightarrow> color_groups \<times> pixel list"
where
  "separate_pixel img bg colors p acc =
     (case acc of (color_pixel_groups, all_visible_pixels) \<Rightarrow>
        (let rgb = getpixel img p in
         if rgb = bg then (color_pixel_groups, all_visible_pixels)
         else (assign_color colors rgb p color_pixel_groups, all_visible_pixels @ [p])))"

definition separate_pixels_by_color ::
  "image \<Rightarrow> rgb list \<Rightarrow> error + color_groups \<times> pixel list"
where
  "separate_pixels_by_color img colors =
     (case bg_color img of
        Inl e \<Rightarrow> Inl e
      | Inr bg \<Rightarrow>
          Inr (fold (separate_pixel img bg colors) (scan_order (width img) (height img))
                 ([], [])))"

text \<open>
  The overall bounds \<open>(min_x, max_x, min_y, max_y)\<close> in raw coordinates (lines 111 to 114);
  \<^verbatim>\<open>min\<close> and \<^verbatim>\<open>max\<close> of an empty sequence raise.
\<close>

type_synonym bounds = "int \<times> int \<times> int \<times> int"

fun overall_bounds :: "pixel list \<Rightarrow> error + bounds" where
  "overall_bounds [] = Inl ValueError"
| "overall_bounds (p # ps) =
     Inr (fold min (map fst ps) (fst p), fold max (map fst ps) (fst p),
          fold min (map snd ps) (snd p), fold max (map snd ps) (snd p))"

fun spacers_to_add :: "bounds \<Rightarrow> pixel list \<Rightarrow> bool \<Rightarrow> pixel list" where
  "spacers_to_add (min_x, max_x, min_y, max_y) pixel_positions needs_spacers =
     (if needs_spacers \<and> pixel_positions \<noteq> [] then
        (let boundary_spacers = [(min_x, min_y), (max_x, max_y)]
         in filter (\<lambda>s. s \<notin> set pixel_positions) boundary_spacers)
      else [])"

text \<open>The body of the drawing loop (lines 154 to 170).\<close>

fun smart_rect :: "int \<Rightarrow> pixel list \<Rightarrow> pixel \<Rightarrow> rect" where
  "smart_rect original_height spacers (x, y) =
     (let flipped_y = original_height - 1 - y;
          left = x * 4 + 50;
          bottom = flipped_y * 4 + 100;
          is_spacer = ((x, y) \<in> set spacers);
          right = (if is_spacer then left + 1 else left + 4);
          top' = (if is_spacer then bottom + 1 else bottom + 4)
      in (left, bottom, right, top'))"

definition create_layer_with_smart_spacers ::
  "int \<Rightarrow> bounds \<Rightarrow> pixel list \<Rightarrow> bool \<Rightarrow> glyph"
where
  "create_layer_with_smart_spacers original_height bnds pixel_positions needs_spacers =
     (let spacers = spacers_to_add bnds pixel_positions needs_spacers;
          all_layer_pixels = pixel_positions @ spacers
      in map (\<lambda>p. rect_contour (smart_rect original_height spacers p)) all_layer_pixels)"

text \<open>The layer names \<^verbatim>\<open>f"blinka.color{i+1:02d}"\<close> for \<^verbatim>\<open>i in range(17)\<close>.\<close>

definition color_layer_names :: "string list" where
  "color_layer_names =
     [''blinka.color01'', ''blinka.color02'', ''blinka.color03'', ''blinka.color04'',
      ''blinka.color05'', ''blinka.color06'', ''blinka.color07'', ''blinka.color08'',
      ''blinka.color09'', ''blinka.color10'', ''blinka.color11'', ''blinka.color12'',
      ''blinka.color13'', ''blinka.color14'', ''blinka.color15'', ''blinka.color16'',
      ''blinka.color17'']"

definition layer_needs_spacers :: "rgb \<Rightarrow> pixel list \<Rightarrow> bool" where
  "layer_needs_spacers color pixels =
     (length pixels > 4 \<or> color \<in> set [(255, 255, 255), (166, 202, 240), (128, 32, 192)])"

record seventeen_font =
  layer_glyphs :: "(string \<times> glyph) list"
  advance_width :: int
  colr_layers :: "(string \<times> nat) list"

definition create_final_seventeen_color_blinka :: "image \<Rightarrow> error + seventeen_font" where
  "create_final_seventeen_color_blinka img =
     (case separate_pixels_by_color img seventeen_colors of
        Inl e \<Rightarrow> Inl e
      | Inr (color_pixel_groups, all_visible_pixels) \<Rightarrow>
          (case overall_bounds all_visible_pixels of
             Inl e \<Rightarrow> Inl e
           | Inr (min_x, max_x, min_y, max_y) \<Rightarrow>
               (let original_height = int (height img);
                    bnds = (min_x, max_x, min_y, max_y)
                in Inr \<lparr>layer_glyphs =
                          [(''.notdef'', create_notdef_glyph),
                           (''space'', create_space_glyph),
                           (''blinka'', []),
                           (''blinka.base'',
                              create_layer_with_smart_spacers original_height bnds
                                all_visible_pixels True)]
                          @ map (\<lambda>(layer_name, color).
                                   (let pixels = dict_get color_pixel_groups color
                                    in (layer_name,
                                        create_layer_with_smart_spacers original_height bnds
                                          pixels (layer_needs_spacers color pixels))))
                              (zip color_layer_names seventeen_colors),
                        advance_width = (max_x - min_x + 2) * 4 + 100,
                        colr_layers =
                          (''blinka.base'', 0)
                          # map (\<lambda>i. (color_layer_names ! i, i + 1)) [0..<17]\<rparr>)))"

section \<open>\<^verbatim>\<open>create_fixed_six_color_blinka.py\<close>\<close>

text \<open>\<^verbatim>\<open>color_counts[rgb] = color_counts.get(rgb, 0) + 1\<close> for every pixel off the background.\<close>

definition count_pixel :: "image \<Rightarrow> rgb \<Rightarrow> pixel \<Rightarrow> (rgb \<times> nat) list \<Rightarrow> (rgb \<times> nat) list" where
  "count_pixel img bg p color_counts =
     (let rgb = getpixel img p in
      if rgb \<noteq> bg then
        dict_set rgb ((case map_of color_counts rgb of None \<Rightarrow> 0 | Some n \<Rightarrow> n) + 1)
          color_counts
      else color_counts)"

text \<open>
  \<^verbatim>\<open>sorted(color_counts.items(), key=lambda x: x[1], reverse=True)[:6]\<close>: a stable sort by
  descending count, then the colours of the first six entries.
\<close>

definition top_6_colors :: "image \<Rightarrow> rgb \<Rightarrow> rgb list" where
  "top_6_colors img bg =
     (let color_counts =
            fold (count_pixel img bg) (scan_order (width img) (height img)) [];
          sorted_colors = sort_key (\<lambda>item. - int (snd item)) color_counts
      in map fst (take 6 sorted_colors))"

text \<open>
  Python's \<^verbatim>\<open>max(seq, key=f)\<close>: the first element whose key is largest; an empty sequence
  raises.
\<close>

fun py_max_key :: "('a \<Rightarrow> nat) \<Rightarrow> 'a list \<Rightarrow> error + 'a" where
  "py_max_key f [] = Inl ValueError"
| "py_max_key f (x # xs) = Inr (fold (\<lambda>c best. if f best < f c then c else best) xs x)"

type_synonym six_state = "color_groups \<times> (int \<times> int \<times> rgb) list"

text \<open>One iteration of the assignment loop (lines 61 to 72).\<close>

definition assign_pixel ::
  "image \<Rightarrow> rgb \<Rightarrow> rgb list \<Rightarrow> pixel \<Rightarrow> six_state \<Rightarrow> error + six_state"
where
  "assign_pixel img bg targets p st =
     (case st of (color_pixels, other_pixels) \<Rightarrow>
        (let rgb = getpixel img p in
         if rgb = bg then Inr (color_pixels, other_pixels)
         else if rgb \<in> set targets then Inr (dict_append rgb p color_pixels, other_pixels)
         else
           (case py_max_key (\<lambda>c. length (dict_get color_pixels c)) targets of
              Inl e \<Rightarrow> Inl e
            | Inr largest_color \<Rightarrow>
                Inr (dict_append largest_color p color_pixels,
                     other_pixels @ [(fst p, snd p, rgb)]))))"

fun assign_pixels ::
  "image \<Rightarrow> rgb \<Rightarrow> rgb list \<Rightarrow> pixel list \<Rightarrow> six_state \<Rightarrow> error + six_state"
where
  "assign_pixels img bg targets [] st = Inr st"
| "assign_pixels img bg targets (p # ps) st =
     (case assign_pixel img bg targets p st of
        Inl e \<Rightarrow> Inl e
      | Inr st' \<Rightarrow> assign_pixels img bg targets ps st')"

text \<open>\<^verbatim>\<open>for color in top_6_colors: color_pixels[color] = []\<close>.\<close>

definition initial_color_pixels :: "rgb list \<Rightarrow> color_groups" where
  "initial_color_pixels targets = fold (\<lambda>color d. dict_set color [] d) targets []"

definition separate_top_six :: "image \<Rightarrow> error + six_state" where
  "separate_top_six img =
     (case bg_color img of
        Inl e \<Rightarrow> Inl e
      | Inr bg \<Rightarrow>
          (let targets = top_6_colors img bg
           in assign_pixels img bg targets (scan_order (width img) (height img))
                (initial_color_pixels targets, [])))"

section \<open>Visible pixels and example images\<close>

text \<open>
  The pixels off the background, in scan order: what every script collects (in one list or
  split over several) while it scans.
\<close>

definition visible_pixels :: "image \<Rightarrow> pixel list" where
  "visible_pixels img =
     filter (\<lambda>p. getpixel img p \<noteq> getpixel img (0, 0))
       (scan_order (width img) (height img))"

text \<open>Small images on which the scripts are evaluated below.\<close>

definition scenario_a_image :: image where
  "scenario_a_image =
     \<lparr>width = 2, height = 2,
      getpixel = (\<lambda>p. if p = (0, 0) then (128, 32, 192) else (0, 0, 0))\<rparr>"

definition scenario_a_shifted :: image where
  "scenario_a_shifted =
     \<lparr>width = 2, height = 2,
      getpixel = (\<lambda>p. if p = (1, 0) then (128, 32, 192) else (0, 0, 0))\<rparr>"

definition all_background_image :: image where
  "all_background_image = \<lparr>width = 2, height = 2, getpixel = (\<lambda>p. (0, 0, 0))\<rparr>"

definition two_eyes_image :: image where
  "two_eyes_image =
     \<lparr>width = 3, height = 3,
      getpixel = (\<lambda>p. if p = (1, 1) then (255, 255, 255)
                       else if p = (2, 2) then (166, 202, 240) else (0, 0, 0))\<rparr>"

definition unmatched_image :: image where
  "unmatched_image =
     \<lparr>width = 2, height = 1,
      getpixel = (\<lambda>p. if p = (1, 0) then (1, 2, 3) else (0, 0, 0))\<rparr>"

definition mixed_image :: image where
  "mixed_image =
     \<lparr>width = 2, height = 2,
      getpixel = (\<lambda>p. if p = (1, 0) then (255, 255, 255)
                       else if p = (0, 1) then (1, 2, 3) else (0, 0, 0))\<rparr>"

definition merge_image :: image where
  "merge_image =
     \<lparr>width = 4, height = 1,
      getpixel = (\<lambda>p. if p = (1, 0) then (166, 202, 240)
                       else if p = (2, 0) then (9, 9, 9) else (0, 0, 0))\<rparr>"

definition three_targets :: "rgb list" where
  "three_targets = [(255, 255, 255), (166, 202, 240), (128, 32, 192)]"

section \<open>Facts about the shared helpers\<close>

lemma fold_min_Min: "fold min xs (x::int) = Min (insert x (set xs))"
  using Min.set_eq_fold [of x xs] by simp

lemma fold_max_Max: "fold max xs (x::int) = Max (insert x (set xs))"
  using Max.set_eq_fold [of x xs] by simp

lemma scan_order_Suc:
  "scan_order w (Suc h) = scan_order w h @ map (\<lambda>x. (int x, int h)) [0..<w]"
  by (simp add: scan_order_def)

lemma set_scan_order:
  "set (scan_order w h) = {(int x, int y) | x y. x < w \<and> y < h}"
proof (induction h)
  case 0
  show ?case by (simp add: scan_order_def)
next
  case (Suc h)
  have "set (map (\<lambda>x. (int x, int h)) [0..<w]) = {(int x, int h) | x. x < w}"
    by auto
  with Suc show ?case
    by (auto simp: scan_order_Suc less_Suc_eq)
qed

lemma distinct_scan_order: "distinct (scan_order w h)"
proof (induction h)
  case 0
  show ?case by (simp add: scan_order_def)
next
  case (Suc h)
  have row: "distinct (map (\<lambda>x. (int x, int h)) [0..<w])"
    by (simp add: distinct_map inj_on_def)
  have disj: "set (scan_order w h) \<inter> set (map (\<lambda>x. (int x, int h)) [0..<w]) = {}"
    by (auto simp: set_scan_order)
  from Suc row disj show ?case
    by (simp add: scan_order_Suc)
qed

lemma distinct_visible_pixels: "distinct (visible_pixels img)"
  by (simp add: visible_pixels_def distinct_scan_order)

lemma visible_pixels_positive:
  assumes "visible_pixels img \<noteq> []"
  shows "0 < width img \<and> 0 < height img"
proof -
  from assms have "scan_order (width img) (height img) \<noteq> []"
    by (auto simp: visible_pixels_def)
  then show ?thesis
    by (cases "width img = 0 \<or> height img = 0") (auto simp: scan_order_def)
qed

lemma overall_bounds_nonempty:
  "ps \<noteq> [] \<Longrightarrow>
   overall_bounds ps = Inr (Min (fst ` set ps), Max (fst ` set ps),
                           Min (snd ` set ps), Max (snd ` set ps))"
  by (cases ps) (simp_all add: fold_min_Min fold_max_Max)

subsection \<open>Dictionaries\<close>

lemma map_of_dict_set: "map_of (dict_set k v d) = (map_of d)(k \<mapsto> v)"
  by (induction d) auto

lemma dict_get_dict_append:
  "dict_get (dict_append k x d) k' = (if k' = k then dict_get d k @ [x] else dict_get d k')"
  by (simp add: dict_get_def dict_append_def map_of_dict_set)

lemma dict_append_Nil: "dict_append k x [] = [(k, [x])]"
  by (simp add: dict_append_def dict_get_def)

lemma dict_append_Cons:
  "dict_append k x ((k', v) # d)
   = (if k = k' then (k', v @ [x]) # d else (k', v) # dict_append k x d)"
  by (simp add: dict_append_def dict_get_def)

lemma mset_dict_append:
  "mset (concat (map snd (dict_append k x d))) = mset (concat (map snd d)) + {#x#}"
  by (induction d) (auto simp: dict_append_Nil dict_append_Cons)

lemma dict_set_not_Nil: "dict_set k v d \<noteq> []"
  by (cases d) (auto split: if_splits)

lemma dict_set_empty_values:
  "list_all (\<lambda>e. snd e = []) d \<Longrightarrow> list_all (\<lambda>e. snd e = []) (dict_set k [] d)"
  by (induction d) auto

lemma fold_dict_set_empty_values:
  "list_all (\<lambda>e. snd e = []) d \<Longrightarrow>
   list_all (\<lambda>e. snd e = []) (fold (\<lambda>color d. dict_set color [] d) targets d)"
  by (induction targets arbitrary: d) (simp_all add: dict_set_empty_values)

section \<open>The coordinate computation\<close>

text \<open>
  Claim C7. For a positive scale factor, the left and bottom coordinates of the rectangle of
  a pixel give back the pixel's column and its flipped row by exact integer division (the
  remainders are zero), and mapping the recovered pixel again with the same parameters gives
  the same rectangle.
\<close>

theorem pixel_rect_round_trip:
  assumes "0 < scale_factor"
    and "pixel_rect scale_factor x_offset y_offset original_height (x, y)
         = (left, bottom, right, top')"
  shows "(left - x_offset) div scale_factor = x
       \<and> (left - x_offset) mod scale_factor = 0
       \<and> (bottom - y_offset) div scale_factor = original_height - 1 - y
       \<and> (bottom - y_offset) mod scale_factor = 0
       \<and> pixel_rect scale_factor x_offset y_offset original_height
            ((left - x_offset) div scale_factor,
             original_height - 1 - (bottom - y_offset) div scale_factor)
          = (left, bottom, right, top')"
proof -
  from assms(2) have l: "left = x * scale_factor + x_offset"
    and b: "bottom = (original_height - 1 - y) * scale_factor + y_offset"
    by (simp_all add: Let_def)
  from assms(1) have nz: "scale_factor \<noteq> 0" by simp
  have x: "(left - x_offset) div scale_factor = x" using nz by (simp add: l)
  have y: "(bottom - y_offset) div scale_factor = original_height - 1 - y"
    using nz by (simp add: b)
  have xm: "(left - x_offset) mod scale_factor = 0" by (simp add: l)
  have ym: "(bottom - y_offset) mod scale_factor = 0" by (simp add: b)
  have again: "pixel_rect scale_factor x_offset y_offset original_height
            ((left - x_offset) div scale_factor,
             original_height - 1 - (bottom - y_offset) div scale_factor)
          = (left, bottom, right, top')"
    unfolding x y using assms(2) by simp
  from x xm y ym again show ?thesis by blast
qed

theorem pixel_rect_round_trip_witness:
  "(0::int) < 4 \<and> pixel_rect 4 50 100 2 (0, 0) = (50, 104, 54, 108)
   \<and> (50 - 50) div (4::int) = 0 \<and> (104 - 100) div (4::int) = 2 - 1 - 0
   \<and> pixel_rect 4 50 100 2 ((50 - 50) div 4, 2 - 1 - (104 - 100) div 4)
     = (50, 104, 54, 108)"
  using pixel_rect_round_trip [of 4 50 100 2 0 0 50 104 54 108] by simp

section \<open>Layers\<close>

lemma spacers_not_own_pixels:
  "set (spacers_to_add bnds ps ns) \<inter> set ps = {}"
  by (cases bnds) (auto simp: Let_def)

lemma length_spacers_to_add: "length (spacers_to_add bnds ps ns) \<le> 2"
  by (cases bnds) (simp add: Let_def)

lemma smart_rect_pixel:
  "p \<notin> set spacers \<Longrightarrow> smart_rect h spacers p = pixel_rect 4 50 100 h p"
  by (cases p) (simp add: Let_def)

lemma smart_rect_spacer:
  "(x, y) \<in> set spacers \<Longrightarrow>
   smart_rect h spacers (x, y)
   = (x * 4 + 50, (h - 1 - y) * 4 + 100, x * 4 + 50 + 1, (h - 1 - y) * 4 + 100 + 1)"
  by (simp add: Let_def)

lemma smart_layer_contours:
  "create_layer_with_smart_spacers h bnds ps ns
   = map (\<lambda>p. rect_contour (pixel_rect 4 50 100 h p)) ps
     @ map (\<lambda>s. rect_contour (fst s * 4 + 50, (h - 1 - snd s) * 4 + 100,
                              fst s * 4 + 50 + 1, (h - 1 - snd s) * 4 + 100 + 1))
         (spacers_to_add bnds ps ns)"
proof -
  let ?sp = "spacers_to_add bnds ps ns"
  have own: "map (\<lambda>p. rect_contour (smart_rect h ?sp p)) ps
             = map (\<lambda>p. rect_contour (pixel_rect 4 50 100 h p)) ps"
    using spacers_not_own_pixels [of bnds ps ns]
    by (intro map_cong refl arg_cong [where f = rect_contour] smart_rect_pixel) auto
  have sp: "map (\<lambda>p. rect_contour (smart_rect h ?sp p)) ?sp
            = map (\<lambda>s. rect_contour (fst s * 4 + 50, (h - 1 - snd s) * 4 + 100,
                                     fst s * 4 + 50 + 1, (h - 1 - snd s) * 4 + 100 + 1)) ?sp"
    by (intro map_cong refl arg_cong [where f = rect_contour])
       (metis smart_rect_spacer prod.collapse)
  show ?thesis
    by (simp add: create_layer_with_smart_spacers_def Let_def own sp)
qed

subsection \<open>Contours of a layer\<close>

text \<open>
  Claim C5, as the claim states it. In the seventeen-colour script a layer with one pixel
  has two contours when a corner of the overall bounds is not among its pixels.
\<close>

theorem smart_spacers_add_contours:
  "length (create_layer_with_smart_spacers 3 (1, 2, 1, 2) [(1, 1)] True) = 2"
  by code_simp

text \<open>
  Claim C5, amended. A layer of the three-colour script is one rectangle per pixel of the
  list, in the order of the list, so n pixels give n contours and no pixel gives none. A
  layer of the seventeen-colour script is the same rectangles followed by one rectangle of
  side 1 for each spacer the layer adds, at most two; it has no spacers when it is built
  without them, and an empty pixel list gives no contour.
\<close>

theorem layer_contours:
  "create_color_layer_glyph h ps = map (\<lambda>p. rect_contour (pixel_rect 4 50 100 h p)) ps
   \<and> length (create_color_layer_glyph h ps) = length ps
   \<and> create_color_layer_glyph h [] = []
   \<and> create_layer_with_smart_spacers h bnds ps ns
       = map (\<lambda>p. rect_contour (pixel_rect 4 50 100 h p)) ps
         @ map (\<lambda>s. rect_contour (fst s * 4 + 50, (h - 1 - snd s) * 4 + 100,
                                  fst s * 4 + 50 + 1, (h - 1 - snd s) * 4 + 100 + 1))
             (spacers_to_add bnds ps ns)
   \<and> length (create_layer_with_smart_spacers h bnds ps ns)
       = length ps + length (spacers_to_add bnds ps ns)
   \<and> length (spacers_to_add bnds ps ns) \<le> 2
   \<and> create_layer_with_smart_spacers h bnds ps False
       = map (\<lambda>p. rect_contour (pixel_rect 4 50 100 h p)) ps
   \<and> create_layer_with_smart_spacers h bnds [] ns = []"
proof -
  note smart = smart_layer_contours [of h bnds ps ns]
  have len: "length (create_layer_with_smart_spacers h bnds ps ns)
       = length ps + length (spacers_to_add bnds ps ns)"
    by (simp add: smart)
  have no_spacers: "spacers_to_add bnds ps False = []" by (cases bnds) simp
  have plain: "create_layer_with_smart_spacers h bnds ps False
       = map (\<lambda>p. rect_contour (pixel_rect 4 50 100 h p)) ps"
    by (simp add: smart_layer_contours no_spacers)
  have empty: "create_layer_with_smart_spacers h bnds [] ns = []"
    by (cases bnds) (simp add: create_layer_with_smart_spacers_def)
  have three: "create_color_layer_glyph h ps
               = map (\<lambda>p. rect_contour (pixel_rect 4 50 100 h p)) ps"
    by (simp add: create_color_layer_glyph_def)
  have three_len: "length (create_color_layer_glyph h ps) = length ps"
    by (simp add: three)
  have three_empty: "create_color_layer_glyph h [] = []"
    by (simp add: create_color_layer_glyph_def)
  from three three_len three_empty smart len length_spacers_to_add [of bnds ps ns]
    plain empty
  show ?thesis by blast
qed

section \<open>Classification\<close>

subsection \<open>The three-colour script\<close>

lemma fold_classify_white:
  "white_pixels (fold (classify_pixel img bg) ps g)
   = white_pixels g @ filter (\<lambda>p. getpixel img p \<noteq> bg \<and> getpixel img p = white_rgb) ps"
  by (induction ps arbitrary: g) (simp_all add: classify_pixel_def Let_def)

lemma fold_classify_light_blue:
  "light_blue_pixels (fold (classify_pixel img bg) ps g)
   = light_blue_pixels g
     @ filter (\<lambda>p. getpixel img p \<noteq> bg \<and> getpixel img p \<noteq> white_rgb
                  \<and> getpixel img p = light_blue_rgb) ps"
  by (induction ps arbitrary: g) (simp_all add: classify_pixel_def Let_def)

lemma fold_classify_purple:
  "purple_pixels (fold (classify_pixel img bg) ps g)
   = purple_pixels g
     @ filter (\<lambda>p. getpixel img p \<noteq> bg \<and> getpixel img p \<noteq> white_rgb
                  \<and> getpixel img p \<noteq> light_blue_rgb) ps"
  by (induction ps arbitrary: g) (simp_all add: classify_pixel_def Let_def)

lemma fold_classify_background:
  "\<forall>p \<in> set ps. getpixel img p = bg \<Longrightarrow> fold (classify_pixel img bg) ps g = g"
  by (induction ps arbitrary: g) (simp_all add: classify_pixel_def)

lemma classify_three_Inr:
  assumes "classify_three img = Inr g"
  shows "g = fold (classify_pixel img (getpixel img (0, 0)))
               (scan_order (width img) (height img)) no_groups"
  using assms by (auto simp: classify_three_def bg_color_def split: if_splits)

lemma classify_three_succeeds:
  "0 < width img \<Longrightarrow> 0 < height img \<Longrightarrow> \<exists>g. classify_three img = Inr g"
  by (simp add: classify_three_def bg_color_def)

lemma three_groups_partition:
  assumes "classify_three img = Inr g"
  shows "set (white_pixels g) \<union> set (light_blue_pixels g) \<union> set (purple_pixels g)
           = set (visible_pixels img)
       \<and> distinct (white_pixels g @ light_blue_pixels g @ purple_pixels g)"
proof -
  note g = classify_three_Inr [OF assms]
  have w: "white_pixels g = filter (\<lambda>p. getpixel img p \<noteq> getpixel img (0, 0)
              \<and> getpixel img p = white_rgb) (scan_order (width img) (height img))"
    by (simp add: g fold_classify_white no_groups_def)
  have l: "light_blue_pixels g = filter (\<lambda>p. getpixel img p \<noteq> getpixel img (0, 0)
              \<and> getpixel img p \<noteq> white_rgb \<and> getpixel img p = light_blue_rgb)
              (scan_order (width img) (height img))"
    by (simp add: g fold_classify_light_blue no_groups_def)
  have p: "purple_pixels g = filter (\<lambda>p. getpixel img p \<noteq> getpixel img (0, 0)
              \<and> getpixel img p \<noteq> white_rgb \<and> getpixel img p \<noteq> light_blue_rgb)
              (scan_order (width img) (height img))"
    by (simp add: g fold_classify_purple no_groups_def)
  have u: "set (white_pixels g) \<union> set (light_blue_pixels g) \<union> set (purple_pixels g)
           = set (visible_pixels img)"
    unfolding w l p visible_pixels_def by auto
  have d: "distinct (white_pixels g @ light_blue_pixels g @ purple_pixels g)"
    unfolding w l p using distinct_scan_order [of "width img" "height img"] by auto
  from u d show ?thesis ..
qed

subsection \<open>The seventeen-colour script\<close>

lemma dict_get_assign_color:
  "dict_get (assign_color colors rgb p g) c
   = (if rgb \<in> set colors \<and> c = rgb then dict_get g c @ [p] else dict_get g c)"
  by (induction colors) (auto simp: dict_get_dict_append)

lemma mset_assign_color:
  "mset (concat (map snd (assign_color colors rgb p g)))
   = mset (concat (map snd g)) + (if rgb \<in> set colors then {#p#} else {#})"
  by (induction colors) (auto simp: mset_dict_append)

lemma fold_separate_visible:
  "snd (fold (separate_pixel img bg colors) ps (g, av))
   = av @ filter (\<lambda>p. getpixel img p \<noteq> bg) ps"
  by (induction ps arbitrary: g av) (simp_all add: separate_pixel_def Let_def)

lemma fold_separate_groups:
  "dict_get (fst (fold (separate_pixel img bg colors) ps (g, av))) c
   = dict_get g c
     @ filter (\<lambda>p. getpixel img p \<noteq> bg \<and> getpixel img p = c \<and> c \<in> set colors) ps"
  by (induction ps arbitrary: g av)
     (auto simp: separate_pixel_def Let_def dict_get_assign_color)

lemma mset_fold_separate:
  "mset (concat (map snd (fst (fold (separate_pixel img bg colors) ps (g, av)))))
   = mset (concat (map snd g))
     + mset (filter (\<lambda>p. getpixel img p \<noteq> bg \<and> getpixel img p \<in> set colors) ps)"
  by (induction ps arbitrary: g av)
     (simp_all add: separate_pixel_def Let_def mset_assign_color)

lemma separate_Inr:
  assumes "separate_pixels_by_color img colors = Inr (groups, av)"
  shows "(groups, av) = fold (separate_pixel img (getpixel img (0, 0)) colors)
               (scan_order (width img) (height img)) ([], [])"
  using assms by (auto simp: separate_pixels_by_color_def bg_color_def split: if_splits)

lemma separate_pixels_by_color_succeeds:
  "0 < width img \<Longrightarrow> 0 < height img \<Longrightarrow>
   \<exists>groups av. separate_pixels_by_color img colors = Inr (groups, av)"
  by (simp add: separate_pixels_by_color_def bg_color_def split_pairs)

lemma separate_all_visible:
  assumes "separate_pixels_by_color img colors = Inr (groups, av)"
  shows "av = visible_pixels img"
  using fold_separate_visible [of img "getpixel img (0, 0)" colors
          "scan_order (width img) (height img)" "[]" "[]"]
  by (simp add: separate_Inr [OF assms, symmetric] visible_pixels_def)

lemma separate_group:
  assumes "separate_pixels_by_color img colors = Inr (groups, av)"
  shows "dict_get groups c
         = filter (\<lambda>p. getpixel img p = c \<and> c \<in> set colors) (visible_pixels img)"
  using fold_separate_groups [of img "getpixel img (0, 0)" colors
          "scan_order (width img) (height img)" "[]" "[]" c]
  by (simp add: separate_Inr [OF assms, symmetric] visible_pixels_def dict_get_def conj_commute conj_left_commute)

lemma separate_groups_mset:
  assumes "separate_pixels_by_color img colors = Inr (groups, av)"
  shows "mset (concat (map snd groups))
         = mset (filter (\<lambda>p. getpixel img p \<in> set colors) (visible_pixels img))"
  using mset_fold_separate [of img "getpixel img (0, 0)" colors
          "scan_order (width img) (height img)" "[]" "[]"]
  by (simp add: separate_Inr [OF assms, symmetric] visible_pixels_def)

subsection \<open>The six-colour script\<close>

lemma fold_best_first_max:
  fixes f :: "'a \<Rightarrow> nat"
  defines "upd \<equiv> (\<lambda>c best. if f best < f c then c else best)"
  shows "(fold upd xs b = b \<and> (\<forall>x \<in> set xs. f x \<le> f b))
       \<or> (\<exists>i < length xs. fold upd xs b = xs ! i \<and> f b < f (xs ! i)
             \<and> (\<forall>j < i. f (xs ! j) < f (xs ! i))
             \<and> (\<forall>x \<in> set xs. f x \<le> f (xs ! i)))"
proof (induction xs arbitrary: b)
  case Nil
  show ?case by simp
next
  case (Cons x xs)
  show ?case
  proof (cases "f b < f x")
    case True
    then have step: "fold upd (x # xs) b = fold upd xs x" by (simp add: upd_def)
    from Cons.IH [of x] show ?thesis
    proof
      assume a: "fold upd xs x = x \<and> (\<forall>y \<in> set xs. f y \<le> f x)"
      have "0 < length (x # xs) \<and> fold upd (x # xs) b = (x # xs) ! 0
            \<and> f b < f ((x # xs) ! 0) \<and> (\<forall>j < 0. f ((x # xs) ! j) < f ((x # xs) ! 0))
            \<and> (\<forall>y \<in> set (x # xs). f y \<le> f ((x # xs) ! 0))"
        using a True step by simp
      then show ?thesis by blast
    next
      assume "\<exists>i < length xs. fold upd xs x = xs ! i \<and> f x < f (xs ! i)
             \<and> (\<forall>j < i. f (xs ! j) < f (xs ! i))
             \<and> (\<forall>y \<in> set xs. f y \<le> f (xs ! i))"
      then obtain i where i: "i < length xs" "fold upd xs x = xs ! i" "f x < f (xs ! i)"
        "\<forall>j < i. f (xs ! j) < f (xs ! i)" "\<forall>y \<in> set xs. f y \<le> f (xs ! i)"
        by blast
      have before: "\<forall>j < Suc i. f ((x # xs) ! j) < f ((x # xs) ! Suc i)"
        using i(3,4) by (auto simp: nth_Cons split: nat.splits)
      have "Suc i < length (x # xs) \<and> fold upd (x # xs) b = (x # xs) ! Suc i
            \<and> f b < f ((x # xs) ! Suc i)
            \<and> (\<forall>j < Suc i. f ((x # xs) ! j) < f ((x # xs) ! Suc i))
            \<and> (\<forall>y \<in> set (x # xs). f y \<le> f ((x # xs) ! Suc i))"
        using i True step before by auto
      then show ?thesis by blast
    qed
  next
    case False
    then have step: "fold upd (x # xs) b = fold upd xs b" by (simp add: upd_def)
    from Cons.IH [of b] show ?thesis
    proof
      assume "fold upd xs b = b \<and> (\<forall>y \<in> set xs. f y \<le> f b)"
      then show ?thesis using False step by auto
    next
      assume "\<exists>i < length xs. fold upd xs b = xs ! i \<and> f b < f (xs ! i)
             \<and> (\<forall>j < i. f (xs ! j) < f (xs ! i))
             \<and> (\<forall>y \<in> set xs. f y \<le> f (xs ! i))"
      then obtain i where i: "i < length xs" "fold upd xs b = xs ! i" "f b < f (xs ! i)"
        "\<forall>j < i. f (xs ! j) < f (xs ! i)" "\<forall>y \<in> set xs. f y \<le> f (xs ! i)"
        by blast
      have before: "\<forall>j < Suc i. f ((x # xs) ! j) < f ((x # xs) ! Suc i)"
        using i(3,4) False by (auto simp: nth_Cons split: nat.splits)
      have "Suc i < length (x # xs) \<and> fold upd (x # xs) b = (x # xs) ! Suc i
            \<and> f b < f ((x # xs) ! Suc i)
            \<and> (\<forall>j < Suc i. f ((x # xs) ! j) < f ((x # xs) ! Suc i))
            \<and> (\<forall>y \<in> set (x # xs). f y \<le> f ((x # xs) ! Suc i))"
        using i False step before by auto
      then show ?thesis by blast
    qed
  qed
qed

lemma py_max_key_first_max:
  assumes "xs \<noteq> []"
  shows "\<exists>i < length xs. py_max_key f xs = Inr (xs ! i)
           \<and> (\<forall>j < length xs. f (xs ! j) \<le> f (xs ! i))
           \<and> (\<forall>j < i. f (xs ! j) < f (xs ! i))"
proof -
  from assms obtain x ys where xs: "xs = x # ys" by (cases xs) auto
  let ?upd = "\<lambda>c best. if f best < f c then c else best"
  from fold_best_first_max [of f ys x] show ?thesis
  proof
    assume a: "fold ?upd ys x = x \<and> (\<forall>y \<in> set ys. f y \<le> f x)"
    have "0 < length xs \<and> py_max_key f xs = Inr (xs ! 0)
          \<and> (\<forall>j < length xs. f (xs ! j) \<le> f (xs ! 0))
          \<and> (\<forall>j < 0. f (xs ! j) < f (xs ! 0))"
      using a by (auto simp: xs nth_Cons split: nat.splits)
    then show ?thesis by blast
  next
    assume "\<exists>i < length ys. fold ?upd ys x = ys ! i \<and> f x < f (ys ! i)
             \<and> (\<forall>j < i. f (ys ! j) < f (ys ! i))
             \<and> (\<forall>y \<in> set ys. f y \<le> f (ys ! i))"
    then obtain i where i: "i < length ys" "fold ?upd ys x = ys ! i" "f x < f (ys ! i)"
        "\<forall>j < i. f (ys ! j) < f (ys ! i)" "\<forall>y \<in> set ys. f y \<le> f (ys ! i)"
      by blast
    have all: "\<forall>j < length xs. f (xs ! j) \<le> f (xs ! Suc i)"
      using i(3,5) by (auto simp: xs nth_Cons split: nat.splits)
    have before: "\<forall>j < Suc i. f (xs ! j) < f (xs ! Suc i)"
      using i(3,4) by (auto simp: xs nth_Cons split: nat.splits)
    have "Suc i < length xs \<and> py_max_key f xs = Inr (xs ! Suc i)"
      using i(1,2) by (simp add: xs)
    with all before show ?thesis by blast
  qed
qed

lemma assign_pixels_append:
  "assign_pixels img bg targets (xs @ ys) st
   = (case assign_pixels img bg targets xs st of
        Inl e \<Rightarrow> Inl e
      | Inr st' \<Rightarrow> assign_pixels img bg targets ys st')"
  by (induction xs arbitrary: st) (simp_all split: sum.splits)

lemma mset_assign_pixel:
  assumes "assign_pixel img bg targets p st = Inr st'"
  shows "mset (concat (map snd (fst st')))
         = mset (concat (map snd (fst st))) + mset (filter (\<lambda>q. getpixel img q \<noteq> bg) [p])"
  using assms
  by (cases st) (auto simp: assign_pixel_def Let_def mset_dict_append
                      split: if_splits sum.splits)

lemma mset_assign_pixels:
  assumes "assign_pixels img bg targets ps st = Inr st'"
  shows "mset (concat (map snd (fst st')))
         = mset (concat (map snd (fst st))) + mset (filter (\<lambda>q. getpixel img q \<noteq> bg) ps)"
  using assms
proof (induction ps arbitrary: st)
  case Nil
  then show ?case by simp
next
  case (Cons p ps)
  from Cons.prems obtain st1 where
    s1: "assign_pixel img bg targets p st = Inr st1" and
    s2: "assign_pixels img bg targets ps st1 = Inr st'"
    by (auto split: sum.splits)
  from mset_assign_pixel [OF s1] Cons.IH [OF s2] show ?case
    by (simp add: ac_simps)
qed

lemma initial_color_pixels_empty: "concat (map snd (initial_color_pixels targets)) = []"
  using fold_dict_set_empty_values [of "[]" targets]
  by (simp add: initial_color_pixels_def list_all_iff)

lemma fold_count_pixel_not_Nil:
  "d \<noteq> [] \<or> (\<exists>p \<in> set ps. getpixel img p \<noteq> bg) \<Longrightarrow>
   fold (count_pixel img bg) ps d \<noteq> []"
proof (induction ps arbitrary: d)
  case Nil
  then show ?case by simp
next
  case (Cons p ps)
  have "count_pixel img bg p d \<noteq> [] \<or> (\<exists>q \<in> set ps. getpixel img q \<noteq> bg)"
    using Cons.prems by (auto simp: count_pixel_def Let_def dict_set_not_Nil)
  from Cons.IH [OF this] show ?case by simp
qed

lemma top_6_colors_not_Nil:
  assumes "p \<in> set (scan_order (width img) (height img))" and "getpixel img p \<noteq> bg"
  shows "top_6_colors img bg \<noteq> []"
proof -
  let ?counts = "fold (count_pixel img bg) (scan_order (width img) (height img)) []"
  have "?counts \<noteq> []"
    using assms fold_count_pixel_not_Nil [of "[]" "scan_order (width img) (height img)" img bg]
    by blast
  then have "sort_key (\<lambda>item. - int (snd item)) ?counts \<noteq> []"
    by (metis length_sort length_0_conv)
  then show ?thesis
    by (simp add: top_6_colors_def Let_def)
qed

lemma assign_pixels_succeeds:
  assumes "targets \<noteq> [] \<or> (\<forall>p \<in> set ps. getpixel img p = bg)"
  shows "\<exists>st'. assign_pixels img bg targets ps st = Inr st'"
  using assms
proof (induction ps arbitrary: st)
  case Nil
  show ?case by simp
next
  case (Cons p ps)
  have "\<exists>st1. assign_pixel img bg targets p st = Inr st1"
  proof (cases "targets = []")
    case True
    with Cons.prems have "getpixel img p = bg" by simp
    then show ?thesis by (cases st) (simp add: assign_pixel_def)
  next
    case False
    then obtain t ts where "targets = t # ts" by (cases targets) auto
    then show ?thesis by (cases st) (simp add: assign_pixel_def Let_def)
  qed
  then obtain st1 where s1: "assign_pixel img bg targets p st = Inr st1" ..
  from Cons.prems have "targets \<noteq> [] \<or> (\<forall>p \<in> set ps. getpixel img p = bg)" by auto
  from Cons.IH [OF this, of st1] s1 show ?case by simp
qed

lemma separate_top_six_succeeds:
  assumes "0 < width img" and "0 < height img"
  shows "\<exists>st. separate_top_six img = Inr st"
proof -
  let ?bg = "getpixel img (0, 0)"
  let ?scan = "scan_order (width img) (height img)"
  have "top_6_colors img ?bg \<noteq> [] \<or> (\<forall>p \<in> set ?scan. getpixel img p = ?bg)"
    using top_6_colors_not_Nil [of _ img ?bg] by blast
  from assign_pixels_succeeds [OF this] assms show ?thesis
    by (simp add: separate_top_six_def bg_color_def Let_def)
qed

lemma separate_top_six_mset:
  assumes "separate_top_six img = Inr (color_pixels, other_pixels)"
  shows "mset (concat (map snd color_pixels)) = mset (visible_pixels img)"
proof -
  let ?bg = "getpixel img (0, 0)"
  from assms have run: "assign_pixels img ?bg (top_6_colors img ?bg)
        (scan_order (width img) (height img))
        (initial_color_pixels (top_6_colors img ?bg), []) = Inr (color_pixels, other_pixels)"
    by (auto simp: separate_top_six_def bg_color_def Let_def split: if_splits)
  from mset_assign_pixels [OF run] show ?thesis
    by (simp add: initial_color_pixels_empty visible_pixels_def)
qed

subsection \<open>Scenario A\<close>

text \<open>
  Claim C2, as the claim states it. The background is whatever colour the origin has, so in
  the 2 by 2 image whose origin is (128, 32, 192) and whose other pixels are (0, 0, 0), the
  origin is background and the three black pixels are the visible ones: they all land in
  the purple list, whose layer has three rectangles, and the pixel (0, 0) is in no list.
\<close>

theorem scenario_a_origin_is_background:
  "classify_three scenario_a_image =
     Inr \<lparr>white_pixels = [], light_blue_pixels = [],
          purple_pixels = [(1, 0), (0, 1), (1, 1)],
          other_color_pixels = [(1, 0, 0, 0, 0), (0, 1, 0, 0, 0), (1, 1, 0, 0, 0)]\<rparr>
   \<and> map_of (glyphs (projr (create_three_color_blinka scenario_a_image))) ''blinka.purple''
     = Some [rect_contour (54, 104, 58, 108), rect_contour (50, 100, 54, 104),
             rect_contour (54, 100, 58, 104)]"
  by code_simp

text \<open>
  Claim C2, amended. With the background (0, 0, 0) at the origin and the colour
  (128, 32, 192) at pixel (1, 0), classification gives one non-empty list holding exactly
  (1, 0), and its layer is one rectangle with left 54, bottom 104, right 58, top 108. The
  rectangle of a pixel (0, 0) in a layer of an image of height 2 is the one the claim
  names: left 50, bottom 104, right 54, top 108.
\<close>

theorem scenario_a_shifted_layer:
  "classify_three scenario_a_shifted =
     Inr \<lparr>white_pixels = [], light_blue_pixels = [], purple_pixels = [(1, 0)],
          other_color_pixels = []\<rparr>
   \<and> create_color_layer_glyph 2 [(1, 0)] = [rect_contour (54, 104, 58, 108)]
   \<and> create_color_layer_glyph 2 [(0, 0)] = [rect_contour (50, 104, 54, 108)]
   \<and> create_three_color_blinka scenario_a_shifted =
       Inr \<lparr>glyphs =
             [(''.notdef'', create_notdef_glyph), (''space'', create_space_glyph),
              (''blinka'', [rect_contour (54, 104, 58, 108)]),
              (''blinka.purple'', [rect_contour (54, 104, 58, 108)]),
              (''blinka.white'', []), (''blinka.lightblue'', [])],
            metrics =
             [(''.notdef'', 500, 50), (''space'', 600, 0), (''blinka'', 108, 50),
              (''blinka.purple'', 108, 50), (''blinka.white'', 108, 50),
              (''blinka.lightblue'', 108, 50)],
            colr_data =
             [(''blinka'',
                 [(''blinka.purple'', 0), (''blinka.lightblue'', 2),
                  (''blinka.white'', 1)])]\<rparr>"
  by code_simp

subsection \<open>Partition\<close>

text \<open>
  Claim C3, as the claim states it. In the seventeen-colour script a visible pixel whose
  colour is none of the seventeen is put in no group: here the pixel (0, 1) of colour
  (1, 2, 3) is visible and the only group holds (1, 0).
\<close>

theorem exact_set_drops_unmatched_pixel:
  "separate_pixels_by_color mixed_image seventeen_colors
     = Inr ([((255, 255, 255), [(1, 0)])], [(1, 0), (0, 1)])"
  by code_simp

text \<open>
  Claim C3, amended. The lists of the three-colour script (first match, everything else
  purple) and the groups of the six-colour script (everything else merged into the largest
  group) hold every visible pixel exactly once. The groups of the seventeen-colour script
  are pairwise disjoint and without duplicates, and together hold exactly the visible pixels
  whose colour is a target colour, each group in scan order; all visible pixels are kept in
  the list \<^verbatim>\<open>all_visible_pixels\<close>.
\<close>

theorem color_groups_partition:
  assumes "0 < width img" and "0 < height img"
  shows "(\<exists>g. classify_three img = Inr g
            \<and> set (white_pixels g) \<union> set (light_blue_pixels g) \<union> set (purple_pixels g)
                = set (visible_pixels img)
            \<and> distinct (white_pixels g @ light_blue_pixels g @ purple_pixels g))
       \<and> (\<exists>color_pixels other_pixels.
              separate_top_six img = Inr (color_pixels, other_pixels)
            \<and> set (concat (map snd color_pixels)) = set (visible_pixels img)
            \<and> distinct (concat (map snd color_pixels)))
       \<and> (\<exists>groups av. separate_pixels_by_color img colors = Inr (groups, av)
            \<and> av = visible_pixels img
            \<and> set (concat (map snd groups))
                = {p \<in> set (visible_pixels img). getpixel img p \<in> set colors}
            \<and> distinct (concat (map snd groups))
            \<and> (\<forall>c. dict_get groups c
                   = filter (\<lambda>p. getpixel img p = c \<and> c \<in> set colors)
                       (visible_pixels img)))"
proof -
  from classify_three_succeeds [OF assms] obtain g where g: "classify_three img = Inr g" ..
  from g three_groups_partition [OF g]
  have three: "\<exists>g. classify_three img = Inr g
            \<and> set (white_pixels g) \<union> set (light_blue_pixels g) \<union> set (purple_pixels g)
                = set (visible_pixels img)
            \<and> distinct (white_pixels g @ light_blue_pixels g @ purple_pixels g)"
    by blast
  from separate_top_six_succeeds [OF assms] obtain color_pixels other_pixels
    where six: "separate_top_six img = Inr (color_pixels, other_pixels)"
    by (metis surj_pair)
  note m6 = separate_top_six_mset [OF six]
  have set6: "set (concat (map snd color_pixels)) = set (visible_pixels img)"
    using m6 by (rule mset_eq_setD)
  have dist6: "distinct (concat (map snd color_pixels))"
    using mset_eq_imp_distinct_iff [OF m6] distinct_visible_pixels [of img] by simp
  from separate_pixels_by_color_succeeds [OF assms, of colors]
  obtain groups av where s: "separate_pixels_by_color img colors = Inr (groups, av)"
    by blast
  note m17 = separate_groups_mset [OF s]
  have set17: "set (concat (map snd groups))
                = {p \<in> set (visible_pixels img). getpixel img p \<in> set colors}"
    using mset_eq_setD [OF m17] by auto
  have "distinct (filter (\<lambda>p. getpixel img p \<in> set colors) (visible_pixels img))"
    using distinct_visible_pixels [of img] by simp
  then have dist17: "distinct (concat (map snd groups))"
    using mset_eq_imp_distinct_iff [OF m17] by simp
  have each: "\<forall>c. dict_get groups c
                   = filter (\<lambda>p. getpixel img p = c \<and> c \<in> set colors)
                       (visible_pixels img)"
    by (simp add: separate_group [OF s])
  from three six set6 dist6 s separate_all_visible [OF s] set17 dist17 each
  show ?thesis by blast
qed

theorem color_groups_partition_witness:
  "0 < width mixed_image \<and> 0 < height mixed_image
   \<and> classify_three mixed_image
       = Inr \<lparr>white_pixels = [(1, 0)], light_blue_pixels = [], purple_pixels = [(0, 1)],
              other_color_pixels = [(0, 1, 1, 2, 3)]\<rparr>
   \<and> (\<exists>g. classify_three mixed_image = Inr g
         \<and> set (white_pixels g) \<union> set (light_blue_pixels g) \<union> set (purple_pixels g)
             = set (visible_pixels mixed_image))
   \<and> (\<exists>color_pixels other_pixels.
          separate_top_six mixed_image = Inr (color_pixels, other_pixels)
        \<and> set (concat (map snd color_pixels)) = set (visible_pixels mixed_image))"
proof -
  have h1: "0 < width mixed_image" and h2: "0 < height mixed_image"
    by (simp_all add: mixed_image_def)
  have c: "classify_three mixed_image
       = Inr \<lparr>white_pixels = [(1, 0)], light_blue_pixels = [], purple_pixels = [(0, 1)],
              other_color_pixels = [(0, 1, 1, 2, 3)]\<rparr>"
    by code_simp
  from color_groups_partition [OF h1 h2, of seventeen_colors] h1 h2 c
  show ?thesis by blast
qed

subsection \<open>A colour outside the target list\<close>

text \<open>
  Claim C4, as the claim states it. The seventeen-colour script has no fallback, and on an
  image with a visible pixel of colour (1, 2, 3) its classification returns normally, with
  no group at all.
\<close>

theorem unmatched_color_raises_nothing:
  "separate_pixels_by_color unmatched_image seventeen_colors = Inr ([], [(1, 0)])"
  by code_simp

text \<open>
  Claim C4, amended. When a visible pixel has a colour outside the target list, the
  classification of the seventeen-colour script raises nothing: it returns, the pixel is in
  no colour group, and it is in \<^verbatim>\<open>all_visible_pixels\<close>; the script as a whole returns
  a font whose base layer contains the rectangle of the pixel.
\<close>

theorem unmatched_color_stays_out_of_groups:
  assumes "p \<in> set (scan_order (width img) (height img))"
    and "getpixel img p \<noteq> getpixel img (0, 0)"
    and "getpixel img p \<notin> set colors"
  shows "(\<exists>groups av. separate_pixels_by_color img colors = Inr (groups, av)
           \<and> p \<in> set av
           \<and> p \<notin> set (concat (map snd groups))
           \<and> (\<forall>c. p \<notin> set (dict_get groups c)))
       \<and> (\<exists>font base. create_final_seventeen_color_blinka img = Inr font
           \<and> map_of (layer_glyphs font) ''blinka.base'' = Some base
           \<and> rect_contour (pixel_rect 4 50 100 (int (height img)) p) \<in> set base)"
proof -
  from assms(1,2) have vis: "p \<in> set (visible_pixels img)"
    by (simp add: visible_pixels_def)
  then have ne: "visible_pixels img \<noteq> []" by auto
  from visible_pixels_positive [OF this] have pos: "0 < width img" "0 < height img"
    by simp_all
  from separate_pixels_by_color_succeeds [OF pos, of colors]
  obtain groups av where s: "separate_pixels_by_color img colors = Inr (groups, av)"
    by blast
  have av: "p \<in> set av" using vis by (simp add: separate_all_visible [OF s])
  have "set (concat (map snd groups))
        = set (filter (\<lambda>p. getpixel img p \<in> set colors) (visible_pixels img))"
    using separate_groups_mset [OF s] by (rule mset_eq_setD)
  with assms(3) have none: "p \<notin> set (concat (map snd groups))" by simp
  have each: "\<forall>c. p \<notin> set (dict_get groups c)"
    using assms(3) by (auto simp: separate_group [OF s])
  from separate_pixels_by_color_succeeds [OF pos, of seventeen_colors]
  obtain groups17 av17
    where s17: "separate_pixels_by_color img seventeen_colors = Inr (groups17, av17)"
    by blast
  have av17: "av17 = visible_pixels img" by (rule separate_all_visible [OF s17])
  let ?bnds = "(Min (fst ` set (visible_pixels img)), Max (fst ` set (visible_pixels img)),
                Min (snd ` set (visible_pixels img)), Max (snd ` set (visible_pixels img)))"
  let ?base = "create_layer_with_smart_spacers (int (height img)) ?bnds
                 (visible_pixels img) True"
  have in_base: "rect_contour (pixel_rect 4 50 100 (int (height img)) p) \<in> set ?base"
    using vis by (simp add: smart_layer_contours)
  have "\<exists>font. create_final_seventeen_color_blinka img = Inr font
           \<and> map_of (layer_glyphs font) ''blinka.base'' = Some ?base"
    by (simp add: create_final_seventeen_color_blinka_def s17 av17
          overall_bounds_nonempty [OF ne] Let_def)
  with in_base have pipeline: "\<exists>font base. create_final_seventeen_color_blinka img = Inr font
           \<and> map_of (layer_glyphs font) ''blinka.base'' = Some base
           \<and> rect_contour (pixel_rect 4 50 100 (int (height img)) p) \<in> set base"
    by blast
  from s av none each pipeline show ?thesis by blast
qed

theorem unmatched_color_stays_out_of_groups_witness:
  "(1, 0) \<in> set (scan_order (width unmatched_image) (height unmatched_image))
   \<and> getpixel unmatched_image (1, 0) \<noteq> getpixel unmatched_image (0, 0)
   \<and> getpixel unmatched_image (1, 0) \<notin> set seventeen_colors
   \<and> (\<exists>groups av. separate_pixels_by_color unmatched_image seventeen_colors
                      = Inr (groups, av)
          \<and> (1, 0) \<in> set av \<and> (1, 0) \<notin> set (concat (map snd groups)))
   \<and> (\<exists>font base. create_final_seventeen_color_blinka unmatched_image = Inr font
          \<and> map_of (layer_glyphs font) ''blinka.base'' = Some base
          \<and> rect_contour (pixel_rect 4 50 100 (int (height unmatched_image)) (1, 0))
              \<in> set base)"
proof -
  have h1: "(1, 0) \<in> set (scan_order (width unmatched_image) (height unmatched_image))"
    by code_simp
  have h2: "getpixel unmatched_image (1, 0) \<noteq> getpixel unmatched_image (0, 0)"
    by (simp add: unmatched_image_def)
  have h3: "getpixel unmatched_image (1, 0) \<notin> set seventeen_colors"
    by (simp add: unmatched_image_def seventeen_colors_def)
  from unmatched_color_stays_out_of_groups [OF h1 h2 h3] h1 h2 h3
  show ?thesis by blast
qed

subsection \<open>Merging into the largest group\<close>

text \<open>
  Claim C9. At the moment a visible pixel whose colour is no target colour is classified,
  it is appended to a target's group that has the most pixels in the state reached so far,
  and to the first such group in the order of the target list; the other groups stay as
  they are.
\<close>

theorem merge_into_largest_group:
  assumes "assign_pixels img bg targets pre st0 = Inr (color_pixels, other_pixels)"
    and "getpixel img p \<noteq> bg"
    and "getpixel img p \<notin> set targets"
    and "targets \<noteq> []"
  shows "\<exists>i < length targets.
           assign_pixels img bg targets (pre @ [p]) st0
             = Inr (dict_append (targets ! i) p color_pixels,
                    other_pixels @ [(fst p, snd p, getpixel img p)])
         \<and> (\<forall>c. dict_get (dict_append (targets ! i) p color_pixels) c
                  = (if c = targets ! i then dict_get color_pixels c @ [p]
                     else dict_get color_pixels c))
         \<and> (\<forall>j < length targets.
                length (dict_get color_pixels (targets ! j))
                  \<le> length (dict_get color_pixels (targets ! i)))
         \<and> (\<forall>j < i. length (dict_get color_pixels (targets ! j))
                  < length (dict_get color_pixels (targets ! i)))"
proof -
  let ?f = "\<lambda>c. length (dict_get color_pixels c)"
  from py_max_key_first_max [OF assms(4), of ?f]
  obtain i where i: "i < length targets" "py_max_key ?f targets = Inr (targets ! i)"
    "\<forall>j < length targets. ?f (targets ! j) \<le> ?f (targets ! i)"
    "\<forall>j < i. ?f (targets ! j) < ?f (targets ! i)"
    by blast
  have step: "assign_pixel img bg targets p (color_pixels, other_pixels)
              = Inr (dict_append (targets ! i) p color_pixels,
                     other_pixels @ [(fst p, snd p, getpixel img p)])"
    using assms(2,3) i(2) by (simp add: assign_pixel_def Let_def)
  have run: "assign_pixels img bg targets (pre @ [p]) st0
             = Inr (dict_append (targets ! i) p color_pixels,
                    other_pixels @ [(fst p, snd p, getpixel img p)])"
    by (simp add: assign_pixels_append assms(1) step)
  have eff: "\<forall>c. dict_get (dict_append (targets ! i) p color_pixels) c
                  = (if c = targets ! i then dict_get color_pixels c @ [p]
                     else dict_get color_pixels c)"
    by (simp add: dict_get_dict_append)
  from i(1) run eff i(3,4) show ?thesis by blast
qed

theorem merge_into_largest_group_witness:
  "assign_pixels merge_image (0, 0, 0) three_targets [(0, 0), (1, 0)]
       (initial_color_pixels three_targets, [])
     = Inr ([((255, 255, 255), []), ((166, 202, 240), [(1, 0)]), ((128, 32, 192), [])], [])
   \<and> getpixel merge_image (2, 0) \<noteq> (0, 0, 0)
   \<and> getpixel merge_image (2, 0) \<notin> set three_targets
   \<and> three_targets \<noteq> []
   \<and> (\<exists>i < length three_targets.
         assign_pixels merge_image (0, 0, 0) three_targets [(0, 0), (1, 0), (2, 0)]
             (initial_color_pixels three_targets, [])
         = Inr (dict_append (three_targets ! i) (2, 0)
                  [((255, 255, 255), []), ((166, 202, 240), [(1, 0)]),
                   ((128, 32, 192), [])],
                [(2, 0, 9, 9, 9)]))
   \<and> assign_pixels merge_image (0, 0, 0) three_targets [(0, 0), (1, 0), (2, 0)]
       (initial_color_pixels three_targets, [])
     = Inr ([((255, 255, 255), []), ((166, 202, 240), [(1, 0), (2, 0)]),
             ((128, 32, 192), [])], [(2, 0, 9, 9, 9)])"
proof -
  let ?st = "[((255, 255, 255), []), ((166, 202, 240), [(1, 0)]), ((128, 32, 192), [])]
             :: color_groups"
  have h1: "assign_pixels merge_image (0, 0, 0) three_targets [(0, 0), (1, 0)]
       (initial_color_pixels three_targets, []) = Inr (?st, [])"
    by code_simp
  have h2: "getpixel merge_image (2, 0) \<noteq> (0, 0, 0)"
    by (simp add: merge_image_def)
  have h3: "getpixel merge_image (2, 0) \<notin> set three_targets"
    by (simp add: merge_image_def three_targets_def)
  have h4: "three_targets \<noteq> []"
    by (simp add: three_targets_def)
  have run: "assign_pixels merge_image (0, 0, 0) three_targets [(0, 0), (1, 0), (2, 0)]
       (initial_color_pixels three_targets, [])
     = Inr ([((255, 255, 255), []), ((166, 202, 240), [(1, 0), (2, 0)]),
             ((128, 32, 192), [])], [(2, 0, 9, 9, 9)])"
    by code_simp
  from merge_into_largest_group [OF h1 h2 h3 h4]
  obtain i where i: "i < length three_targets"
    and step: "assign_pixels merge_image (0, 0, 0) three_targets ([(0, 0), (1, 0)] @ [(2, 0)])
             (initial_color_pixels three_targets, [])
         = Inr (dict_append (three_targets ! i) (2, 0) ?st,
                [] @ [(fst (2 :: int, 0 :: int), snd (2 :: int, 0 :: int),
                       getpixel merge_image (2, 0))])"
    by (elim exE conjE)
  from step have "assign_pixels merge_image (0, 0, 0) three_targets [(0, 0), (1, 0), (2, 0)]
             (initial_color_pixels three_targets, [])
         = Inr (dict_append (three_targets ! i) (2, 0) ?st, [(2, 0, 9, 9, 9)])"
    by (simp add: merge_image_def)
  with i have ex: "\<exists>i < length three_targets.
         assign_pixels merge_image (0, 0, 0) three_targets [(0, 0), (1, 0), (2, 0)]
             (initial_color_pixels three_targets, [])
         = Inr (dict_append (three_targets ! i) (2, 0) ?st, [(2, 0, 9, 9, 9)])"
    by (intro exI [of _ i] conjI)
  from h1 h2 h3 h4 ex run show ?thesis by (intro conjI)
qed

section \<open>Coordinates across the layers of one glyph\<close>

text \<open>
  Claim C1, as the claim states it. On the 3 by 3 image with a white pixel at (1, 1) and a
  light blue pixel at (2, 2), the base layer of the seventeen-colour script draws the pixel
  (2, 2) as a rectangle of side 4, from (58, 100) to (62, 104), and the white layer draws
  the same pixel, as a spacer, as a rectangle of side 1, from (58, 100) to (59, 101). On the
  same image the compensated script draws the light blue pixel (2, 2) from (70, 100), twelve
  units to the right of where its purple and white layers map that pixel.
\<close>

theorem layers_disagree_on_a_pixel:
  "take 2 (drop 3 (layer_glyphs (projr (create_final_seventeen_color_blinka two_eyes_image))))
     = [(''blinka.base'',
           [rect_contour (54, 104, 58, 108), rect_contour (58, 100, 62, 104)]),
        (''blinka.color01'',
           [rect_contour (54, 104, 58, 108), rect_contour (58, 100, 59, 101)])]
   \<and> separate_pixels_by_color two_eyes_image seventeen_colors
     = Inr ([((255, 255, 255), [(1, 1)]), ((166, 202, 240), [(2, 2)])], [(1, 1), (2, 2)])
   \<and> overall_bounds [(1, 1), (2, 2)] = Inr (1, 2, 1, 2)
   \<and> smart_rect 3 (spacers_to_add (1, 2, 1, 2) [(1, 1), (2, 2)] True) (2, 2)
     = (58, 100, 62, 104)
   \<and> smart_rect 3 (spacers_to_add (1, 2, 1, 2) [(1, 1)] True) (2, 2)
     = (58, 100, 59, 101)
   \<and> classify_three two_eyes_image
     = Inr \<lparr>white_pixels = [(1, 1)], light_blue_pixels = [(2, 2)], purple_pixels = [],
            other_color_pixels = []\<rparr>
   \<and> compensated_layers 3 (projr (classify_three two_eyes_image))
     = [(''blinka.purple'', []),
        (''blinka.white'', [rect_contour (54, 104, 58, 108)]),
        (''blinka.lightblue'', [rect_contour (70, 100, 74, 104)])]
   \<and> compensated_rect 3 (compensation_offsets Purple) (2, 2) = (58, 100, 62, 104)
   \<and> compensated_rect 3 (compensation_offsets LightBlue) (2, 2) = (70, 100, 74, 104)"
  by code_simp

lemma compensated_rect_pixel_rect:
  "compensated_rect h c q = pixel_rect 4 (50 + c) 100 h q"
  by (cases q) (simp add: Let_def)

lemma compensated_layer_contours:
  "create_compensated_color_layer_glyph h ps c
   = map (\<lambda>p. rect_contour (pixel_rect 4 (50 + c) 100 h p)) ps"
  by (simp add: create_compensated_color_layer_glyph_def compensated_rect_pixel_rect)

lemma seventeen_layers:
  assumes "create_final_seventeen_color_blinka img = Inr font"
  shows "\<exists>groups bnds.
           separate_pixels_by_color img seventeen_colors = Inr (groups, visible_pixels img)
         \<and> overall_bounds (visible_pixels img) = Inr bnds
         \<and> layer_glyphs font
             = [(''.notdef'', create_notdef_glyph), (''space'', create_space_glyph),
                (''blinka'', []),
                (''blinka.base'',
                   create_layer_with_smart_spacers (int (height img)) bnds
                     (visible_pixels img) True)]
               @ map (\<lambda>(layer_name, color).
                        (layer_name,
                         create_layer_with_smart_spacers (int (height img)) bnds
                           (dict_get groups color)
                           (layer_needs_spacers color (dict_get groups color))))
                   (zip color_layer_names seventeen_colors)"
proof (cases "separate_pixels_by_color img seventeen_colors")
  case (Inl e)
  with assms show ?thesis by (simp add: create_final_seventeen_color_blinka_def)
next
  case (Inr r)
  obtain groups av where r: "r = (groups, av)" by (cases r)
  have s: "separate_pixels_by_color img seventeen_colors = Inr (groups, av)"
    using Inr r by simp
  have av: "av = visible_pixels img" by (rule separate_all_visible [OF s])
  show ?thesis
  proof (cases "overall_bounds av")
    case (Inl e)
    with assms s show ?thesis by (simp add: create_final_seventeen_color_blinka_def)
  next
    case (Inr bnds)
    obtain min_x max_x min_y max_y where b: "bnds = (min_x, max_x, min_y, max_y)"
      by (cases bnds)
    have font: "layer_glyphs font
             = [(''.notdef'', create_notdef_glyph), (''space'', create_space_glyph),
                (''blinka'', []),
                (''blinka.base'',
                   create_layer_with_smart_spacers (int (height img)) bnds
                     (visible_pixels img) True)]
               @ map (\<lambda>(layer_name, color).
                        (layer_name,
                         create_layer_with_smart_spacers (int (height img)) bnds
                           (dict_get groups color)
                           (layer_needs_spacers color (dict_get groups color))))
                   (zip color_layer_names seventeen_colors)"
      using assms s Inr b av
      by (auto simp: create_final_seventeen_color_blinka_def Let_def)
    from s av Inr font show ?thesis by blast
  qed
qed

text \<open>
  Claim C1, amended. In the seventeen-colour script the base layer and the seventeen colour
  layers are all built by the same builder with the same image height and the same overall
  bounds, at scale 4 and offsets 50 and 100. A pixel that is in the pixel lists of two
  layers gets the same rectangle of side 4 in both, and that rectangle is a contour of both
  layers. A pixel that a layer adds as a boundary spacer is not in that layer's pixel list
  and is drawn there with the same left and bottom but with side 1, so its rectangle
  differs from the one a layer owning the pixel draws. In the compensated script the purple
  and white layers map every pixel with x offset 50 and the light blue layer with x offset
  62, at the same scale, y offset and image height, so the light blue layer maps every
  pixel to a rectangle different from the one the other two layers give it.
\<close>

theorem layer_rect_parameters:
  assumes "p \<in> set ps_a" and "p \<in> set ps_b"
    and "(x, y) \<in> set (spacers_to_add bnds ps_c ns_c)"
    and "create_final_seventeen_color_blinka img = Inr font"
  shows "smart_rect h (spacers_to_add bnds ps_a ns_a) p = pixel_rect 4 50 100 h p
       \<and> smart_rect h (spacers_to_add bnds ps_b ns_b) p = pixel_rect 4 50 100 h p
       \<and> rect_contour (pixel_rect 4 50 100 h p)
           \<in> set (create_layer_with_smart_spacers h bnds ps_a ns_a)
       \<and> rect_contour (pixel_rect 4 50 100 h p)
           \<in> set (create_layer_with_smart_spacers h bnds ps_b ns_b)
       \<and> smart_rect h (spacers_to_add bnds ps_c ns_c) (x, y)
           = (x * 4 + 50, (h - 1 - y) * 4 + 100, x * 4 + 50 + 1, (h - 1 - y) * 4 + 100 + 1)
       \<and> pixel_rect 4 50 100 h (x, y)
           = (x * 4 + 50, (h - 1 - y) * 4 + 100, x * 4 + 50 + 4, (h - 1 - y) * 4 + 100 + 4)
       \<and> smart_rect h (spacers_to_add bnds ps_c ns_c) (x, y) \<noteq> pixel_rect 4 50 100 h (x, y)
       \<and> rect_contour
             (x * 4 + 50, (h - 1 - y) * 4 + 100, x * 4 + 50 + 1, (h - 1 - y) * 4 + 100 + 1)
           \<in> set (create_layer_with_smart_spacers h bnds ps_c ns_c)
       \<and> (x, y) \<notin> set ps_c
       \<and> create_layer_with_smart_spacers h bnds ps_c ns_c
           = map (\<lambda>q. rect_contour (pixel_rect 4 50 100 h q)) ps_c
             @ map (\<lambda>s. rect_contour (fst s * 4 + 50, (h - 1 - snd s) * 4 + 100,
                                      fst s * 4 + 50 + 1, (h - 1 - snd s) * 4 + 100 + 1))
                 (spacers_to_add bnds ps_c ns_c)
       \<and> (\<exists>groups bnds'.
             separate_pixels_by_color img seventeen_colors = Inr (groups, visible_pixels img)
           \<and> overall_bounds (visible_pixels img) = Inr bnds'
           \<and> layer_glyphs font
               = [(''.notdef'', create_notdef_glyph), (''space'', create_space_glyph),
                  (''blinka'', []),
                  (''blinka.base'',
                     create_layer_with_smart_spacers (int (height img)) bnds'
                       (visible_pixels img) True)]
                 @ map (\<lambda>(layer_name, color).
                          (layer_name,
                           create_layer_with_smart_spacers (int (height img)) bnds'
                             (dict_get groups color)
                             (layer_needs_spacers color (dict_get groups color))))
                     (zip color_layer_names seventeen_colors))
       \<and> compensated_layers h g
           = [(''blinka.purple'',
                 map (\<lambda>q. rect_contour (pixel_rect 4 50 100 h q)) (purple_pixels g)),
              (''blinka.white'',
                 map (\<lambda>q. rect_contour (pixel_rect 4 50 100 h q)) (white_pixels g)),
              (''blinka.lightblue'',
                 map (\<lambda>q. rect_contour (pixel_rect 4 62 100 h q)) (light_blue_pixels g))]
       \<and> pixel_rect 4 62 100 h q \<noteq> pixel_rect 4 50 100 h q"
proof -
  let ?tiny = "(x * 4 + 50, (h - 1 - y) * 4 + 100, x * 4 + 50 + 1, (h - 1 - y) * 4 + 100 + 1)"
  have a: "smart_rect h (spacers_to_add bnds ps_a ns_a) p = pixel_rect 4 50 100 h p"
    using assms(1) spacers_not_own_pixels [of bnds ps_a ns_a]
    by (intro smart_rect_pixel) auto
  have b: "smart_rect h (spacers_to_add bnds ps_b ns_b) p = pixel_rect 4 50 100 h p"
    using assms(2) spacers_not_own_pixels [of bnds ps_b ns_b]
    by (intro smart_rect_pixel) auto
  have in_a: "rect_contour (pixel_rect 4 50 100 h p)
           \<in> set (create_layer_with_smart_spacers h bnds ps_a ns_a)"
    using assms(1) by (simp add: smart_layer_contours)
  have in_b: "rect_contour (pixel_rect 4 50 100 h p)
           \<in> set (create_layer_with_smart_spacers h bnds ps_b ns_b)"
    using assms(2) by (simp add: smart_layer_contours)
  have sp: "smart_rect h (spacers_to_add bnds ps_c ns_c) (x, y) = ?tiny"
    using assms(3) by (rule smart_rect_spacer)
  have full: "pixel_rect 4 50 100 h (x, y)
           = (x * 4 + 50, (h - 1 - y) * 4 + 100, x * 4 + 50 + 4, (h - 1 - y) * 4 + 100 + 4)"
    by (simp add: Let_def)
  have differ: "smart_rect h (spacers_to_add bnds ps_c ns_c) (x, y)
                \<noteq> pixel_rect 4 50 100 h (x, y)"
    unfolding sp full by simp
  have "rect_contour ((\<lambda>s. (fst s * 4 + 50, (h - 1 - snd s) * 4 + 100,
                            fst s * 4 + 50 + 1, (h - 1 - snd s) * 4 + 100 + 1)) (x, y))
        \<in> (\<lambda>s. rect_contour (fst s * 4 + 50, (h - 1 - snd s) * 4 + 100,
                      fst s * 4 + 50 + 1, (h - 1 - snd s) * 4 + 100 + 1))
            ` set (spacers_to_add bnds ps_c ns_c)"
    using assms(3) by (rule rev_image_eqI) simp
  then have in_c: "rect_contour ?tiny \<in> set (create_layer_with_smart_spacers h bnds ps_c ns_c)"
    by (simp add: smart_layer_contours)
  have not_own: "(x, y) \<notin> set ps_c"
    using assms(3) spacers_not_own_pixels [of bnds ps_c ns_c] by auto
  note layer = smart_layer_contours [of h bnds ps_c ns_c]
  note pipeline = seventeen_layers [OF assms(4)]
  have comp: "compensated_layers h g
           = [(''blinka.purple'',
                 map (\<lambda>q. rect_contour (pixel_rect 4 50 100 h q)) (purple_pixels g)),
              (''blinka.white'',
                 map (\<lambda>q. rect_contour (pixel_rect 4 50 100 h q)) (white_pixels g)),
              (''blinka.lightblue'',
                 map (\<lambda>q. rect_contour (pixel_rect 4 62 100 h q)) (light_blue_pixels g))]"
    by (simp add: compensated_layers_def compensated_layer_contours)
  have shifted: "pixel_rect 4 62 100 h q \<noteq> pixel_rect 4 50 100 h q"
    by (cases q) (simp add: Let_def)
  show ?thesis
    using a b in_a in_b sp full differ in_c not_own layer pipeline comp shifted
    by (intro conjI)
qed

theorem layer_rect_parameters_witness:
  "(1, 1) \<in> set [(1, 1), (2, 2) :: pixel] \<and> (1, 1) \<in> set [(1, 1) :: pixel]
   \<and> (2, 2) \<in> set (spacers_to_add (1, 2, 1, 2) [(1, 1)] True)
   \<and> create_final_seventeen_color_blinka two_eyes_image
       = Inr (projr (create_final_seventeen_color_blinka two_eyes_image))
   \<and> smart_rect 3 (spacers_to_add (1, 2, 1, 2) [(1, 1), (2, 2)] True) (1, 1)
       = (54, 104, 58, 108)
   \<and> smart_rect 3 (spacers_to_add (1, 2, 1, 2) [(1, 1)] True) (1, 1) = (54, 104, 58, 108)
   \<and> smart_rect 3 (spacers_to_add (1, 2, 1, 2) [(1, 1)] True) (2, 2) = (58, 100, 59, 101)
   \<and> pixel_rect 4 50 100 3 (2, 2) = (58, 100, 62, 104)
   \<and> rect_contour (58, 100, 59, 101)
       \<in> set (create_layer_with_smart_spacers 3 (1, 2, 1, 2) [(1, 1)] True)
   \<and> compensated_layers 3
         \<lparr>white_pixels = [(1, 1)], light_blue_pixels = [(2, 2)], purple_pixels = [],
          other_color_pixels = []\<rparr>
       = [(''blinka.purple'', []),
          (''blinka.white'', [rect_contour (54, 104, 58, 108)]),
          (''blinka.lightblue'', [rect_contour (70, 100, 74, 104)])]"
proof -
  have h1: "(1, 1) \<in> set [(1, 1), (2, 2) :: pixel]" by simp
  have h2: "(1, 1) \<in> set [(1, 1) :: pixel]" by simp
  have h3: "(2, 2) \<in> set (spacers_to_add (1, 2, 1, 2) [(1, 1)] True)" by simp
  have h4: "create_final_seventeen_color_blinka two_eyes_image
       = Inr (projr (create_final_seventeen_color_blinka two_eyes_image))"
    by code_simp
  note t = layer_rect_parameters [OF h1 h2 h3 h4,
      where h = 3 and ns_a = True and ns_b = True and q = "(2, 2)"
        and g = "\<lparr>white_pixels = [(1, 1)], light_blue_pixels = [(2, 2)],
                   purple_pixels = [], other_color_pixels = []\<rparr>"]
  have c1: "smart_rect 3 (spacers_to_add (1, 2, 1, 2) [(1, 1), (2, 2)] True) (1, 1)
       = (54, 104, 58, 108)"
    using t by simp
  have c2: "smart_rect 3 (spacers_to_add (1, 2, 1, 2) [(1, 1)] True) (1, 1)
       = (54, 104, 58, 108)"
    using t by simp
  have c3: "smart_rect 3 (spacers_to_add (1, 2, 1, 2) [(1, 1)] True) (2, 2)
       = (58, 100, 59, 101)"
    using t by simp
  have c4: "pixel_rect 4 50 100 3 (2, 2) = (58, 100, 62, 104)"
    using t by simp
  have c5: "rect_contour (58, 100, 59, 101)
       \<in> set (create_layer_with_smart_spacers 3 (1, 2, 1, 2) [(1, 1)] True)"
    using t by simp
  have c6: "compensated_layers 3
         \<lparr>white_pixels = [(1, 1)], light_blue_pixels = [(2, 2)], purple_pixels = [],
          other_color_pixels = []\<rparr>
       = [(''blinka.purple'', []),
          (''blinka.white'', [rect_contour (54, 104, 58, 108)]),
          (''blinka.lightblue'', [rect_contour (70, 100, 74, 104)])]"
    using t by simp
  from h1 h2 h3 h4 c1 c2 c3 c4 c5 c6 show ?thesis by (intro conjI)
qed

section \<open>Bounds and advance width\<close>

lemma glyph_width_nonempty:
  "ps \<noteq> [] \<Longrightarrow>
   glyph_width w ps = (Max (fst ` set ps) - Min (fst ` set ps) + 2) * 4 + 100"
  by (cases ps) (simp_all add: fold_min_Min fold_max_Max Let_def)

lemma base_outline_rect_nonempty:
  "ps \<noteq> [] \<Longrightarrow>
   base_outline_rect w h ps =
     (Min (fst ` set ps) * 4 + 50,
      Min ((\<lambda>q. h - 1 - snd q) ` set ps) * 4 + 100,
      (Max (fst ` set ps) + 1) * 4 + 50,
      (Max ((\<lambda>q. h - 1 - snd q) ` set ps) + 1) * 4 + 100)"
  by (cases ps) (simp_all add: fold_min_Min fold_max_Max Let_def)

lemma Min_flip:
  fixes S :: "int set"
  assumes "finite S" and "S \<noteq> {}"
  shows "Min ((\<lambda>y. h - 1 - y) ` S) = h - 1 - Max S"
proof (rule Min_eqI)
  show "finite ((\<lambda>y. h - 1 - y) ` S)" using assms by simp
  show "\<And>z. z \<in> (\<lambda>y. h - 1 - y) ` S \<Longrightarrow> h - 1 - Max S \<le> z"
    using assms by auto
  show "h - 1 - Max S \<in> (\<lambda>y. h - 1 - y) ` S"
    using Max_in [OF assms] by blast
qed

lemma Max_flip:
  fixes S :: "int set"
  assumes "finite S" and "S \<noteq> {}"
  shows "Max ((\<lambda>y. h - 1 - y) ` S) = h - 1 - Min S"
proof (rule Max_eqI)
  show "finite ((\<lambda>y. h - 1 - y) ` S)" using assms by simp
  show "\<And>z. z \<in> (\<lambda>y. h - 1 - y) ` S \<Longrightarrow> z \<le> h - 1 - Min S"
    using assms by auto
  show "h - 1 - Min S \<in> (\<lambda>y. h - 1 - y) ` S"
    using Min_in [OF assms] by blast
qed

lemma base_outline_rect_raw:
  assumes "ps \<noteq> []"
  shows "base_outline_rect w h ps =
     (Min (fst ` set ps) * 4 + 50,
      (h - 1 - Max (snd ` set ps)) * 4 + 100,
      (Max (fst ` set ps) + 1) * 4 + 50,
      (h - 1 - Min (snd ` set ps) + 1) * 4 + 100)"
proof -
  have img: "(\<lambda>q. h - 1 - snd q) ` set ps = (\<lambda>y. h - 1 - y) ` (snd ` set ps)"
    by (simp add: image_image)
  have ne: "snd ` set ps \<noteq> {}" using assms by simp
  show ?thesis
    unfolding base_outline_rect_nonempty [OF assms] img
    by (simp add: Min_flip [OF _ ne] Max_flip [OF _ ne])
qed

lemma visible_two_eyes: "visible_pixels two_eyes_image = [(1, 1), (2, 2)]"
  by code_simp

text \<open>
  Claim C6. On an image whose pixels all have the colour of the origin, the three-colour
  script raises nothing: the three lists are empty, the three layers have no contour, the
  outline is the fallback rectangle from (50, 100) to (50 + 4 * width, 100 + 4 * height),
  and the advance width is 4 * width + 100.
\<close>

theorem all_background_is_valid:
  assumes "0 < width img" and "0 < height img"
    and "\<forall>p \<in> set (scan_order (width img) (height img)). getpixel img p = getpixel img (0, 0)"
  shows "classify_three img = Inr no_groups
       \<and> create_three_color_blinka img =
           Inr \<lparr>glyphs =
                 [(''.notdef'', create_notdef_glyph), (''space'', create_space_glyph),
                  (''blinka'',
                     [rect_contour (50, 100, 50 + int (width img) * 4,
                                    100 + int (height img) * 4)]),
                  (''blinka.purple'', []), (''blinka.white'', []),
                  (''blinka.lightblue'', [])],
                metrics =
                 [(''.notdef'', 500, 50), (''space'', 600, 0),
                  (''blinka'', int (width img) * 4 + 100, 50),
                  (''blinka.purple'', int (width img) * 4 + 100, 50),
                  (''blinka.white'', int (width img) * 4 + 100, 50),
                  (''blinka.lightblue'', int (width img) * 4 + 100, 50)],
                colr_data =
                 [(''blinka'',
                     [(''blinka.purple'', 0), (''blinka.lightblue'', 2),
                      (''blinka.white'', 1)])]\<rparr>"
proof -
  have c: "classify_three img = Inr no_groups"
    using assms by (simp add: classify_three_def bg_color_def fold_classify_background)
  show ?thesis
    unfolding create_three_color_blinka_def c
    by (simp add: no_groups_def create_base_outline_glyph_def create_color_layer_glyph_def
          Let_def)
qed

theorem all_background_is_valid_witness:
  "0 < width all_background_image \<and> 0 < height all_background_image
   \<and> classify_three all_background_image = Inr no_groups
   \<and> create_three_color_blinka all_background_image =
       Inr \<lparr>glyphs =
             [(''.notdef'', create_notdef_glyph), (''space'', create_space_glyph),
              (''blinka'', [rect_contour (50, 100, 58, 108)]),
              (''blinka.purple'', []), (''blinka.white'', []), (''blinka.lightblue'', [])],
            metrics =
             [(''.notdef'', 500, 50), (''space'', 600, 0), (''blinka'', 108, 50),
              (''blinka.purple'', 108, 50), (''blinka.white'', 108, 50),
              (''blinka.lightblue'', 108, 50)],
            colr_data =
             [(''blinka'',
                 [(''blinka.purple'', 0), (''blinka.lightblue'', 2),
                  (''blinka.white'', 1)])]\<rparr>"
  using all_background_is_valid [of all_background_image]
  by (simp add: all_background_image_def)

text \<open>
  The seventeen-colour script takes the minimum of the visible pixels without such a
  fallback.
\<close>

lemma seventeen_all_background_raises:
  "create_final_seventeen_color_blinka all_background_image = Inl ValueError"
  by code_simp

text \<open>
  Claim C8. Adding a pixel to a non-empty list of visible pixels never moves a side of the
  outline rectangle inwards and never lowers the advance width; when the pixel's column or
  row lies strictly outside the columns or rows present, at least one side moves outwards.
\<close>

theorem bounds_monotone:
  assumes "ps \<noteq> []"
    and "set qs = insert (x, y) (set ps)"
    and "base_outline_rect w h ps = (l, b, r, t)"
    and "base_outline_rect w h qs = (l', b', r', t')"
  shows "(x < Min (fst ` set ps) \<or> Max (fst ` set ps) < x
          \<or> y < Min (snd ` set ps) \<or> Max (snd ` set ps) < y
          \<longrightarrow> l' \<le> l \<and> b' \<le> b \<and> r \<le> r' \<and> t \<le> t'
              \<and> (l' < l \<or> b' < b \<or> r < r' \<or> t < t'))
       \<and> glyph_width w ps \<le> glyph_width w qs"
proof -
  have qs: "qs \<noteq> []" using assms(2) by auto
  have ne: "fst ` set ps \<noteq> {}" "snd ` set ps \<noteq> {}" using assms(1) by simp_all
  have fx: "fst ` set qs = insert x (fst ` set ps)"
    and fy: "snd ` set qs = insert y (snd ` set ps)"
    using assms(2) by simp_all
  have minx: "Min (fst ` set qs) = min x (Min (fst ` set ps))"
    unfolding fx using ne by simp
  have maxx: "Max (fst ` set qs) = max x (Max (fst ` set ps))"
    unfolding fx using ne by simp
  have miny: "Min (snd ` set qs) = min y (Min (snd ` set ps))"
    unfolding fy using ne by simp
  have maxy: "Max (snd ` set qs) = max y (Max (snd ` set ps))"
    unfolding fy using ne by simp
  have old: "l = Min (fst ` set ps) * 4 + 50" "b = (h - 1 - Max (snd ` set ps)) * 4 + 100"
    "r = (Max (fst ` set ps) + 1) * 4 + 50" "t = (h - 1 - Min (snd ` set ps) + 1) * 4 + 100"
    using assms(3) by (simp_all add: base_outline_rect_raw [OF assms(1)])
  have new: "l' = min x (Min (fst ` set ps)) * 4 + 50"
    "b' = (h - 1 - max y (Max (snd ` set ps))) * 4 + 100"
    "r' = (max x (Max (fst ` set ps)) + 1) * 4 + 50"
    "t' = (h - 1 - min y (Min (snd ` set ps)) + 1) * 4 + 100"
    using assms(4) by (simp_all add: base_outline_rect_raw [OF qs] minx maxx miny maxy)
  have grows: "x < Min (fst ` set ps) \<or> Max (fst ` set ps) < x
          \<or> y < Min (snd ` set ps) \<or> Max (snd ` set ps) < y
          \<longrightarrow> l' \<le> l \<and> b' \<le> b \<and> r \<le> r' \<and> t \<le> t'
              \<and> (l' < l \<or> b' < b \<or> r < r' \<or> t < t')"
    unfolding old new by (auto simp: min_def max_def)
  have width: "glyph_width w ps \<le> glyph_width w qs"
    unfolding glyph_width_nonempty [OF assms(1)] glyph_width_nonempty [OF qs] minx maxx
    by (auto simp: min_def max_def)
  from grows width show ?thesis ..
qed

theorem bounds_monotone_witness:
  "[(1, 1)] \<noteq> ([] :: pixel list)
   \<and> set [(1, 1), (2, 2)] = insert (2, 2) (set [(1, 1) :: pixel])
   \<and> base_outline_rect 3 3 [(1, 1)] = (54, 104, 58, 108)
   \<and> base_outline_rect 3 3 [(1, 1), (2, 2)] = (54, 100, 62, 108)
   \<and> Max (fst ` set [(1, 1) :: pixel]) < 2
   \<and> (100::int) < 104 \<and> (58::int) < 62
   \<and> glyph_width 3 [(1, 1)] \<le> glyph_width 3 [(1, 1), (2, 2)]"
  using bounds_monotone [of "[(1, 1)]" "[(1, 1), (2, 2)]" 2 2 3 3 54 104 58 108 54 100 62 108]
  by (simp add: insert_commute)

text \<open>
  Claim C10. When some pixel is visible, the advance width of the three-colour script and
  of the seventeen-colour script is (max_x - min_x + 2) * 4 + 100, for the least and the
  greatest column of a visible pixel; any non-empty pixel list with the same least and
  greatest column gives the same width, whatever its rows, its length and the image width.
\<close>

theorem advance_width_x_extent:
  assumes "visible_pixels img \<noteq> []"
  shows "(\<exists>font. create_three_color_blinka img = Inr font
            \<and> map_of (metrics font) ''blinka''
                = Some ((Max (fst ` set (visible_pixels img))
                         - Min (fst ` set (visible_pixels img)) + 2) * 4 + 100, 50))
       \<and> (\<exists>font. create_final_seventeen_color_blinka img = Inr font
            \<and> advance_width font
                = (Max (fst ` set (visible_pixels img))
                   - Min (fst ` set (visible_pixels img)) + 2) * 4 + 100)
       \<and> (\<forall>ps w. ps \<noteq> [] \<and> Min (fst ` set ps) = Min (fst ` set (visible_pixels img))
                  \<and> Max (fst ` set ps) = Max (fst ` set (visible_pixels img))
              \<longrightarrow> glyph_width w ps
                  = (Max (fst ` set (visible_pixels img))
                     - Min (fst ` set (visible_pixels img)) + 2) * 4 + 100)"
proof -
  from visible_pixels_positive [OF assms] have pos: "0 < width img" "0 < height img"
    by simp_all
  from classify_three_succeeds [OF pos] obtain g where g: "classify_three img = Inr g" ..
  let ?all = "white_pixels g @ light_blue_pixels g @ purple_pixels g"
  from three_groups_partition [OF g] have sets: "set ?all = set (visible_pixels img)"
    by auto
  with assms have ne: "?all \<noteq> []" by (metis set_empty)
  have three: "\<exists>font. create_three_color_blinka img = Inr font
            \<and> map_of (metrics font) ''blinka''
                = Some ((Max (fst ` set (visible_pixels img))
                         - Min (fst ` set (visible_pixels img)) + 2) * 4 + 100, 50)"
    using glyph_width_nonempty [OF ne, of "int (width img)"]
    by (simp add: create_three_color_blinka_def g Let_def sets del: set_append)
  from separate_pixels_by_color_succeeds [OF pos, of seventeen_colors]
  obtain groups av where s: "separate_pixels_by_color img seventeen_colors = Inr (groups, av)"
    by blast
  have av: "av = visible_pixels img" by (rule separate_all_visible [OF s])
  have seventeen: "\<exists>font. create_final_seventeen_color_blinka img = Inr font
            \<and> advance_width font
                = (Max (fst ` set (visible_pixels img))
                   - Min (fst ` set (visible_pixels img)) + 2) * 4 + 100"
    by (simp add: create_final_seventeen_color_blinka_def s av
          overall_bounds_nonempty [OF assms] Let_def)
  have extent: "\<forall>ps w. ps \<noteq> [] \<and> Min (fst ` set ps) = Min (fst ` set (visible_pixels img))
                  \<and> Max (fst ` set ps) = Max (fst ` set (visible_pixels img))
              \<longrightarrow> glyph_width w ps
                  = (Max (fst ` set (visible_pixels img))
                     - Min (fst ` set (visible_pixels img)) + 2) * 4 + 100"
    by (simp add: glyph_width_nonempty)
  from three seventeen extent show ?thesis by blast
qed

theorem advance_width_x_extent_witness:
  "visible_pixels two_eyes_image \<noteq> []
   \<and> (\<exists>font. create_three_color_blinka two_eyes_image = Inr font
         \<and> map_of (metrics font) ''blinka'' = Some (112, 50))
   \<and> (\<exists>font. create_final_seventeen_color_blinka two_eyes_image = Inr font
         \<and> advance_width font = 112)
   \<and> glyph_width 7 [(2, 0), (1, 5), (2, 9)] = 112"
  using advance_width_x_extent [of two_eyes_image]
  by (simp add: visible_two_eyes)

end
